theory Spec2Isabelle
  imports Complex_Main
begin

section \<open>Values, errors and results\<close>

text \<open>
  The risk engine of \<^verbatim>\<open>risk_engine.py\<close> works on Python numbers. In the VaR methods
  they are modelled as real numbers, with every arithmetic step exact; the Monte Carlo
  simulation carries the not-a-number values of \<^verbatim>\<open>numpy\<close> as well, and the stress
  evaluator is modelled on doubles, rounded at every operation. Exceptions are values of
  the type \<open>error\<close>; a function of the source that can raise returns \<open>error + 'a\<close>, with
  \<open>Inl\<close> for the exception.
\<close>

datatype error =
    KeyError string
  | IndexError
  | ValueError
  | LinAlgError
  | UnboundLocalError string
  | OverflowError
  | LibraryError string

definition bind_err :: "error + 'a \<Rightarrow> ('a \<Rightarrow> error + 'b) \<Rightarrow> error + 'b" where
  "bind_err m f = (case m of Inl e \<Rightarrow> Inl e | Inr x \<Rightarrow> f x)"

text \<open>The dictionary \<^verbatim>\<open>{"var95": ..., "var99": ...}\<close> returned by the VaR methods.\<close>

record var_result =
  var95 :: real
  var99 :: real

text \<open>
  \<^verbatim>\<open>np.round\<close> rounds to the nearest integer and a tie to the even neighbour.
\<close>

definition np_round :: "real \<Rightarrow> real" where
  "np_round x =
     (let f = \<lfloor>x\<rfloor>; d = x - of_int f
      in if d < 1 / 2 then of_int f
         else if 1 / 2 < d then of_int (f + 1)
         else if even f then of_int f else of_int (f + 1))"

text \<open>Indexing a sequence: Python raises \<^verbatim>\<open>IndexError\<close> out of range.\<close>

definition index_at :: "'a list \<Rightarrow> nat \<Rightarrow> error + 'a" where
  "index_at xs i = (if i < length xs then Inr (xs ! i) else Inl IndexError)"

section \<open>Historical VaR\<close>

text \<open>
  \<^verbatim>\<open>int(len(sorted_returns) * 0.05)\<close>: the length times the fraction, truncated. The
  product is not negative, so truncation is the floor.
\<close>

definition var_index :: "nat \<Rightarrow> real \<Rightarrow> nat" where
  "var_index n c = nat \<lfloor>real n * c\<rfloor>"

definition historical_var :: "real list \<Rightarrow> real \<Rightarrow> real list \<Rightarrow> error + var_result" where
  "historical_var returns portfolio_value confidence_levels =
     (if length returns = 0 then Inr \<lparr>var95 = 0, var99 = 0\<rparr>
      else
        let sorted_returns = sort returns;
            var_95_index = var_index (length sorted_returns) 0.05;
            var_99_index = var_index (length sorted_returns) 0.01
        in bind_err (index_at sorted_returns var_95_index) (\<lambda>r95.
           bind_err (index_at sorted_returns var_99_index) (\<lambda>r99.
             let var_95 = \<bar>r95 * portfolio_value\<bar>;
                 var_99 = \<bar>r99 * portfolio_value\<bar>
             in Inr \<lparr>var95 = np_round var_95, var99 = np_round var_99\<rparr>)))"

section \<open>Positions and the portfolio aggregator\<close>

text \<open>
  A position is a Python dict. The engine reads five keys of it; the record holds the
  value under each of them, \<open>None\<close> when the key is absent, so that \<^verbatim>\<open>pos['quantity']\<close>
  on a dict without that key is the \<^verbatim>\<open>KeyError\<close> of the source. The key
  \<^verbatim>\<open>product\<close> is the field \<open>product_code\<close>.
\<close>

record pos_dict =
  product_code :: "string option"
  quantity :: "real option"
  lotSize :: "real option"
  currentPrice :: "real option"
  position :: "string option"

definition getitem :: "'a option \<Rightarrow> string \<Rightarrow> error + 'a" where
  "getitem field key = (case field of None \<Rightarrow> Inl (KeyError key) | Some v \<Rightarrow> Inr v)"

text \<open>
  The returns are a dict from instrument code to a list of returns, in insertion order:
  an association list. The current prices are a dict that is only looked up: a map.
\<close>

type_synonym returns_dict = "(string \<times> real list) list"
type_synonym prices_dict = "string \<rightharpoonup> real"

text \<open>\<^verbatim>\<open>abs(pos['quantity'] * pos['lotSize'] * pos['currentPrice'])\<close>\<close>

definition position_value :: "pos_dict \<Rightarrow> error + real" where
  "position_value pos =
     bind_err (getitem (quantity pos) ''quantity'') (\<lambda>q.
     bind_err (getitem (lotSize pos) ''lotSize'') (\<lambda>l.
     bind_err (getitem (currentPrice pos) ''currentPrice'') (\<lambda>c.
       Inr \<bar>q * l * c\<bar>)))"

fun sum_position_values :: "real \<Rightarrow> pos_dict list \<Rightarrow> error + real" where
  "sum_position_values total_value [] = Inr total_value"
| "sum_position_values total_value (pos # rest) =
     bind_err (position_value pos) (\<lambda>v. sum_position_values (total_value + v) rest)"

definition calculate_portfolio_value :: "pos_dict list \<Rightarrow> error + real" where
  "calculate_portfolio_value positions = sum_position_values 0 positions"

text \<open>
  The loop of \<^verbatim>\<open>_calculate_portfolio_returns\<close> over the positions; \<open>acc\<close> is the array
  \<^verbatim>\<open>portfolio_returns\<close>.
\<close>

fun weighted_returns_loop ::
  "returns_dict \<Rightarrow> nat \<Rightarrow> real \<Rightarrow> real list \<Rightarrow> pos_dict list \<Rightarrow> error + real list" where
  "weighted_returns_loop returns min_length total_value acc [] = Inr acc"
| "weighted_returns_loop returns min_length total_value acc (pos # rest) =
     bind_err (getitem (product_code pos) ''product'') (\<lambda>product.
       case map_of returns product of
         None \<Rightarrow> weighted_returns_loop returns min_length total_value acc rest
       | Some series \<Rightarrow>
           bind_err (position_value pos) (\<lambda>pv.
             let weight = pv / total_value;
                 position_returns = take min_length series
             in bind_err (getitem (position pos) ''position'') (\<lambda>side.
                  let position_returns =
                        (if side = ''Short'' then map uminus position_returns
                         else position_returns)
                  in weighted_returns_loop returns min_length total_value
                       (map2 (\<lambda>a r. a + weight * r) acc position_returns) rest)))"

definition calculate_portfolio_returns :: "pos_dict list \<Rightarrow> returns_dict \<Rightarrow> error + real list" where
  "calculate_portfolio_returns positions returns =
     (if returns = [] then Inr []
      else
        let min_length = Min (set (map (\<lambda>(p, r). length r) returns))
        in if min_length = 0 then Inr []
           else
             let portfolio_returns = replicate min_length 0
             in bind_err (calculate_portfolio_value positions) (\<lambda>total_value.
                  if total_value = 0 then Inr portfolio_returns
                  else weighted_returns_loop returns min_length total_value
                         portfolio_returns positions))"

section \<open>Double-precision arithmetic\<close>

text \<open>
  The stress evaluator computes a price change as \<^verbatim>\<open>price * (1 + shock) - price\<close>. In
  exact arithmetic that is \<^verbatim>\<open>price * shock\<close>; in the binary floating point of Python it
  is not, and the difference can reach the rounded output. The evaluator is therefore
  modelled on doubles: every operation gives the double nearest to the exact result
  (53 significant bits, ties to the even neighbour, fewer bits below the normal range).
\<close>

definition round_even :: "real \<Rightarrow> int" where
  "round_even x =
     (let f = \<lfloor>x\<rfloor>; d = x - of_int f
      in if d < 1 / 2 then f else if 1 / 2 < d then f + 1
         else if even f then f else f + 1)"

definition binary_exponent :: "real \<Rightarrow> int" where
  "binary_exponent x = \<lfloor>log 2 \<bar>x\<bar>\<rfloor>"

definition fl :: "real \<Rightarrow> real" where
  "fl x =
     (if x = 0 then 0
      else
        let e = max (binary_exponent x) (- 1022);
            ulp = 2 powi (e - 52)
        in of_int (round_even (x / ulp)) * ulp)"

definition max_double :: real where
  "max_double = (2 ^ 53 - 1) * 2 ^ 971"

text \<open>
  A double is a number or, after an overflow, an infinity or a NaN. The evaluator only
  adds, subtracts and multiplies, and under these operations a value that is not finite
  stays not finite (\<^verbatim>\<open>inf * 0\<close> and \<^verbatim>\<open>inf - inf\<close> are NaN): one constructor stands for
  all of them.
\<close>

datatype double = Fin real | NonFinite

definition to_double :: "real \<Rightarrow> double" where
  "to_double x = (if max_double < \<bar>fl x\<bar> then NonFinite else Fin (fl x))"

fun fadd :: "double \<Rightarrow> double \<Rightarrow> double" where
  "fadd (Fin x) (Fin y) = to_double (x + y)"
| "fadd a b = NonFinite"

fun fsub :: "double \<Rightarrow> double \<Rightarrow> double" where
  "fsub (Fin x) (Fin y) = to_double (x - y)"
| "fsub a b = NonFinite"

fun fmul :: "double \<Rightarrow> double \<Rightarrow> double" where
  "fmul (Fin x) (Fin y) = to_double (x * y)"
| "fmul a b = NonFinite"

text \<open>
  A number of the request enters the arithmetic as the nearest double: a float literal
  when the JSON is parsed, an integer when it meets a float. An integer too large for a
  double raises \<^verbatim>\<open>OverflowError\<close> there; a number of the request beyond the range of
  the doubles is taken to be an integer.
\<close>

definition read_number :: "real \<Rightarrow> error + double" where
  "read_number x = (if max_double < \<bar>fl x\<bar> then Inl OverflowError else Inr (Fin (fl x)))"

text \<open>\<^verbatim>\<open>float(np.round(x))\<close> on a double.\<close>

fun round_double :: "double \<Rightarrow> double" where
  "round_double (Fin x) = Fin (np_round x)"
| "round_double NonFinite = NonFinite"

section \<open>Stress evaluator\<close>

fun stress_impact_loop ::
  "prices_dict \<Rightarrow> double \<Rightarrow> double \<Rightarrow> pos_dict list \<Rightarrow> error + double" where
  "stress_impact_loop current_prices shock_percentage total_impact [] = Inr total_impact"
| "stress_impact_loop current_prices shock_percentage total_impact (pos # rest) =
     bind_err (getitem (product_code pos) ''product'') (\<lambda>product.
       case current_prices product of
         None \<Rightarrow> stress_impact_loop current_prices shock_percentage total_impact rest
       | Some current_price \<Rightarrow>
           bind_err (read_number current_price) (\<lambda>current_price.
             let shocked_price = fmul current_price (fadd (Fin 1) shock_percentage);
                 price_change = fsub shocked_price current_price
             in bind_err (getitem (position pos) ''position'') (\<lambda>side.
                  let multiplier = (if side = ''Long'' then Fin 1 else Fin (- 1))
                  in bind_err (getitem (quantity pos) ''quantity'') (\<lambda>q.
                     bind_err (read_number q) (\<lambda>q.
                     bind_err (getitem (lotSize pos) ''lotSize'') (\<lambda>l.
                     bind_err (read_number l) (\<lambda>l.
                       let impact = fmul (fmul (fmul price_change q) l) multiplier
                       in stress_impact_loop current_prices shock_percentage
                            (fadd total_impact impact) rest)))))))"

definition calculate_stress_impact ::
  "pos_dict list \<Rightarrow> prices_dict \<Rightarrow> double \<Rightarrow> error + double" where
  "calculate_stress_impact positions current_prices shock_percentage =
     stress_impact_loop current_prices shock_percentage (Fin 0) positions"

record stress_result =
  scenario :: string
  pnlImpact :: double
  description :: string

definition run_stress_tests :: "pos_dict list \<Rightarrow> prices_dict \<Rightarrow> error + stress_result list" where
  "run_stress_tests positions current_prices =
     bind_err (calculate_stress_impact positions current_prices (to_double (- 0.10)))
       (\<lambda>shock_10_down.
     bind_err (calculate_stress_impact positions current_prices (to_double 0.10))
       (\<lambda>shock_10_up.
     bind_err (calculate_stress_impact positions current_prices (to_double (- 0.15)))
       (\<lambda>historical_worst.
       Inr [\<lparr>scenario = ''-10% Shock'', pnlImpact = round_double shock_10_down,
             description = ''10% decline in all oil and fuel prices''\<rparr>,
            \<lparr>scenario = ''+10% Shock'', pnlImpact = round_double shock_10_up,
             description = ''10% increase in all oil and fuel prices''\<rparr>,
            \<lparr>scenario = ''Historical Worst'', pnlImpact = round_double historical_worst,
             description = ''Repeat of historical worst daily oil price decline''\<rparr>])))"

section \<open>Volatility forecaster\<close>

text \<open>
  The statistics libraries are outside the repository; their functions are parameters
  of the model. \<open>ARCH_AVAILABLE\<close> is the module flag set by the import of \<^verbatim>\<open>arch\<close>.
  \<open>fit_student_t\<close> stands for the fit and one-day forecast with Student-t innovations
  (lines 51 to 56): it gives the predicted variance and the fitted \<^verbatim>\<open>nu\<close> when the
  parameters have one, or the exception raised. \<open>fit_normal\<close> is the refit with Normal
  innovations (lines 73 to 77). \<open>t_ppf\<close> and \<open>norm_ppf\<close> are the inverse distribution
  functions of \<^verbatim>\<open>scipy.stats\<close>.
\<close>

record stats_library =
  ARCH_AVAILABLE :: bool
  fit_student_t :: "real list \<Rightarrow> error + real \<times> real option"
  fit_normal :: "real list \<Rightarrow> error + real"
  t_ppf :: "real \<Rightarrow> real \<Rightarrow> real"
  norm_ppf :: "real \<Rightarrow> real"

definition simplified_garch :: "stats_library \<Rightarrow> real list \<Rightarrow> real \<Rightarrow> real \<times> real" where
  "simplified_garch lib returns portfolio_value =
     (let lambda_param = 0.94;
          squared_returns = map (\<lambda>r. r ^ 2) returns;
          weights = map (\<lambda>i. (1 - lambda_param) * lambda_param ^ i)
                      [0 ..< length squared_returns];
          weights = map (\<lambda>w. w / sum_list weights) weights;
          variance = sum_list (map2 (*) weights (rev squared_returns));
          volatility = sqrt variance;
          var_95 = \<bar>norm_ppf lib 0.05 * volatility * portfolio_value\<bar>;
          var_99 = \<bar>norm_ppf lib 0.01 * volatility * portfolio_value\<bar>
      in (var_95, var_99))"

text \<open>
  The branch taken when the library is there: the fit with Student-t innovations and,
  when anything in it raises, the refit with Normal innovations (lines 47 to 81).
\<close>

definition arch_garch :: "stats_library \<Rightarrow> real list \<Rightarrow> real \<Rightarrow> error + real \<times> real" where
  "arch_garch lib portfolio_returns portfolio_value =
     (let returns_series = map (\<lambda>r. r * 100) portfolio_returns
      in case fit_student_t lib returns_series of
           Inr (predicted_variance, params_nu) \<Rightarrow>
             let predicted_vol = sqrt predicted_variance / 100
             in (case params_nu of
                   Some nu \<Rightarrow>
                     Inr (\<bar>t_ppf lib 0.05 nu * predicted_vol * portfolio_value\<bar>,
                          \<bar>t_ppf lib 0.01 nu * predicted_vol * portfolio_value\<bar>)
                 | None \<Rightarrow>
                     Inr (\<bar>norm_ppf lib 0.05 * predicted_vol * portfolio_value\<bar>,
                          \<bar>norm_ppf lib 0.01 * predicted_vol * portfolio_value\<bar>))
         | Inl e \<Rightarrow>
             bind_err (fit_normal lib returns_series) (\<lambda>predicted_variance.
               let predicted_vol = sqrt predicted_variance / 100
               in Inr (\<bar>norm_ppf lib 0.05 * predicted_vol * portfolio_value\<bar>,
                       \<bar>norm_ppf lib 0.01 * predicted_vol * portfolio_value\<bar>)))"

text \<open>
  The body of the \<^verbatim>\<open>try\<close> of \<^verbatim>\<open>calculate_garch_var\<close> after the two portfolio
  computations (lines 41 to 90).
\<close>

definition garch_estimate ::
  "stats_library \<Rightarrow> real list \<Rightarrow> real \<Rightarrow> real list \<Rightarrow> error + var_result" where
  "garch_estimate lib portfolio_returns portfolio_value confidence_levels =
     (if length portfolio_returns < 100
      then historical_var portfolio_returns portfolio_value confidence_levels
      else
        bind_err
          (if ARCH_AVAILABLE lib then arch_garch lib portfolio_returns portfolio_value
           else Inr (simplified_garch lib portfolio_returns portfolio_value))
          (\<lambda>(var_95, var_99). Inr \<lparr>var95 = np_round var_95, var99 = np_round var_99\<rparr>))"

text \<open>
  The \<^verbatim>\<open>except\<close> handlers call \<^verbatim>\<open>_historical_var(portfolio_returns, portfolio_value, ...)\<close>
  on the local variables of the method. A local that the \<^verbatim>\<open>try\<close> block has not yet
  assigned is \<open>None\<close> here, and reading it raises \<^verbatim>\<open>UnboundLocalError\<close>; the arguments
  are read from left to right.
\<close>

definition historical_fallback ::
  "real list option \<Rightarrow> real option \<Rightarrow> real list \<Rightarrow> error + var_result" where
  "historical_fallback portfolio_returns portfolio_value confidence_levels =
     (case portfolio_returns of
        None \<Rightarrow> Inl (UnboundLocalError ''portfolio_returns'')
      | Some pr \<Rightarrow>
          (case portfolio_value of
             None \<Rightarrow> Inl (UnboundLocalError ''portfolio_value'')
           | Some pv \<Rightarrow> historical_var pr pv confidence_levels))"

definition calculate_garch_var ::
  "stats_library \<Rightarrow> pos_dict list \<Rightarrow> returns_dict \<Rightarrow> real list \<Rightarrow> error + var_result" where
  "calculate_garch_var lib positions returns confidence_levels =
     (case calculate_portfolio_value positions of
        Inl e \<Rightarrow> historical_fallback None None confidence_levels
      | Inr portfolio_value \<Rightarrow>
          (case calculate_portfolio_returns positions returns of
             Inl e \<Rightarrow> historical_fallback None (Some portfolio_value) confidence_levels
           | Inr portfolio_returns \<Rightarrow>
               (case garch_estimate lib portfolio_returns portfolio_value confidence_levels of
                  Inl e \<Rightarrow>
                    historical_fallback (Some portfolio_returns) (Some portfolio_value)
                      confidence_levels
                | Inr result \<Rightarrow> Inr result)))"

text \<open>
  The EWMA estimate in the words of the specification: the weight of lag \<open>i\<close>, counted
  from the most recent of \<open>n\<close> observations backward, is \<open>(1 - \<lambda>) \<lambda>\<^sup>i\<close> divided by the sum
  of these over all lags, and the variance is the weighted sum of the squared returns.
\<close>

definition spec_ewma_weight :: "nat \<Rightarrow> nat \<Rightarrow> real" where
  "spec_ewma_weight n i = (1 - 0.94) * 0.94 ^ i / (\<Sum>j<n. (1 - 0.94) * 0.94 ^ j)"

definition spec_ewma_variance :: "real list \<Rightarrow> real" where
  "spec_ewma_variance r =
     (\<Sum>i<length r. spec_ewma_weight (length r) i * (r ! (length r - 1 - i)) ^ 2)"

section \<open>Monte Carlo simulation\<close>

text \<open>
  A value that \<^verbatim>\<open>numpy\<close> computes may be not-a-number: the mean of no observations,
  the covariance of fewer than two. Such a value raises nothing and spreads through
  every operation it enters, a product with zero included.
\<close>

datatype npfloat = Num real | NaN

fun nf_add :: "npfloat \<Rightarrow> npfloat \<Rightarrow> npfloat" where
  "nf_add (Num x) (Num y) = Num (x + y)"
| "nf_add a b = NaN"

fun nf_sub :: "npfloat \<Rightarrow> npfloat \<Rightarrow> npfloat" where
  "nf_sub (Num x) (Num y) = Num (x - y)"
| "nf_sub a b = NaN"

fun nf_mul :: "npfloat \<Rightarrow> npfloat \<Rightarrow> npfloat" where
  "nf_mul (Num x) (Num y) = Num (x * y)"
| "nf_mul a b = NaN"

text \<open>\<^verbatim>\<open>np.sqrt\<close>: not-a-number below zero. \<^verbatim>\<open>np.maximum(x, 0)\<close> keeps a NaN.\<close>

fun nf_sqrt :: "npfloat \<Rightarrow> npfloat" where
  "nf_sqrt (Num x) = (if x < 0 then NaN else Num (sqrt x))"
| "nf_sqrt NaN = NaN"

fun nf_maximum_0 :: "npfloat \<Rightarrow> npfloat" where
  "nf_maximum_0 (Num x) = Num (max x 0)"
| "nf_maximum_0 NaN = NaN"

definition nf_sum :: "npfloat list \<Rightarrow> npfloat" where
  "nf_sum xs = foldl nf_add (Num 0) xs"

text \<open>The numbers of a sample, when none of its entries is a NaN.\<close>

fun nums :: "npfloat list \<Rightarrow> real list option" where
  "nums [] = Some []"
| "nums (Num x # xs) = map_option ((#) x) (nums xs)"
| "nums (NaN # xs) = None"

text \<open>
  \<^verbatim>\<open>numpy\<close> is outside the repository too. Its random generator is one state for the
  whole process, of a type \<open>'g\<close> left open: \<open>np_seed\<close> is \<^verbatim>\<open>np.random.seed\<close>, which
  gives the state for a seed or raises; \<open>np_normal\<close> and \<open>np_randn\<close> are
  \<^verbatim>\<open>np.random.normal(loc, scale, size)\<close> and \<^verbatim>\<open>np.random.randn(rows, columns)\<close>, which
  read the state and give the sample (or the exception) and the state after the draw.
  \<open>np_mean\<close> and \<open>np_cov\<close> are the means and the covariance of the matrix of returns,
  which they are given by its columns, one for each product (the array of line 115
  before it is transposed). \<open>np_cholesky\<close> and \<open>np_eig\<close> are the two decompositions.
  Every other matrix is the list of its rows.
\<close>

record 'g numpy =
  np_seed :: "int \<Rightarrow> error + 'g"
  np_normal :: "npfloat \<Rightarrow> npfloat \<Rightarrow> int \<Rightarrow> 'g \<Rightarrow> (error + npfloat list) \<times> 'g"
  np_randn :: "int \<Rightarrow> nat \<Rightarrow> 'g \<Rightarrow> (error + real list list) \<times> 'g"
  np_mean :: "real list list \<Rightarrow> npfloat list"
  np_cov :: "real list list \<Rightarrow> npfloat list list"
  np_cholesky :: "npfloat list list \<Rightarrow> error + npfloat list list"
  np_eig :: "npfloat list list \<Rightarrow> error + npfloat list \<times> npfloat list list"

text \<open>
  \<^verbatim>\<open>np.percentile(a, q)\<close> with the default linear interpolation: the value at the
  position \<open>(n - 1) * q / 100\<close> of the sorted sample, between its two neighbours. It
  raises on an empty sample and on \<open>q\<close> outside 0 to 100.
\<close>

definition np_percentile :: "real list \<Rightarrow> real \<Rightarrow> error + real" where
  "np_percentile a q =
     (if q < 0 \<or> 100 < q then Inl ValueError
      else if a = [] then Inl IndexError
      else
        let s = sort a;
            n = length s;
            virtual_index = (real n - 1) * (q / 100);
            previous_index = nat \<lfloor>virtual_index\<rfloor>;
            next_index = min (previous_index + 1) (n - 1);
            gamma = virtual_index - of_int \<lfloor>virtual_index\<rfloor>
        in Inr (s ! previous_index + (s ! next_index - s ! previous_index) * gamma))"

text \<open>An engine object holds its seed; the generator it seeds is the global one.\<close>

record risk_engine =
  seed :: int

definition RiskEngine_init :: "'g numpy \<Rightarrow> int \<Rightarrow> 'g \<Rightarrow> error + risk_engine \<times> 'g" where
  "RiskEngine_init np seed_arg g =
     bind_err (np_seed np seed_arg) (\<lambda>g'. Inr (\<lparr>seed = seed_arg\<rparr>, g'))"

text \<open>\<^verbatim>\<open>products.index(x)\<close>, for an \<open>x\<close> that is in the list.\<close>

fun list_index :: "'a list \<Rightarrow> 'a \<Rightarrow> nat" where
  "list_index [] x = 0"
| "list_index (y # ys) x = (if y = x then 0 else Suc (list_index ys x))"

text \<open>\<^verbatim>\<open>simulated_returns[:, idx]\<close>\<close>

definition column :: "npfloat list list \<Rightarrow> nat \<Rightarrow> error + npfloat list" where
  "column m idx =
     (if list_all (\<lambda>row. idx < length row) m then Inr (map (\<lambda>row. row ! idx) m)
      else Inl IndexError)"

fun aggregate_loop ::
  "string list \<Rightarrow> npfloat list list \<Rightarrow> real \<Rightarrow> npfloat list \<Rightarrow> pos_dict list \<Rightarrow>
   error + npfloat list" where
  "aggregate_loop products simulated_returns total_value acc [] = Inr acc"
| "aggregate_loop products simulated_returns total_value acc (pos # rest) =
     bind_err (getitem (product_code pos) ''product'') (\<lambda>product.
       if product \<in> set products then
         let idx = list_index products product
         in bind_err (position_value pos) (\<lambda>pv.
              let weight = pv / total_value
              in bind_err (getitem (position pos) ''position'') (\<lambda>side.
                   bind_err (column simulated_returns idx) (\<lambda>col.
                     if side = ''Short''
                     then aggregate_loop products simulated_returns total_value
                            (map2 (\<lambda>a c. nf_sub a (nf_mul (Num weight) c)) acc col) rest
                     else aggregate_loop products simulated_returns total_value
                            (map2 (\<lambda>a c. nf_add a (nf_mul (Num weight) c)) acc col) rest)))
       else aggregate_loop products simulated_returns total_value acc rest)"

definition aggregate_simulated_returns ::
  "pos_dict list \<Rightarrow> string list \<Rightarrow> npfloat list list \<Rightarrow> error + npfloat list" where
  "aggregate_simulated_returns positions products simulated_returns =
     (let portfolio_returns = replicate (length simulated_returns) (Num 0)
      in bind_err (calculate_portfolio_value positions) (\<lambda>total_value.
           if total_value = 0 then Inr portfolio_returns
           else aggregate_loop products simulated_returns total_value portfolio_returns
                  positions))"

text \<open>
  \<^verbatim>\<open>mean_returns + random_normals @ L.T\<close>: to each row \<open>z\<close> of the normal variates, the
  vector whose entry \<open>j\<close> is the mean of \<open>j\<close> plus the sum of \<open>z[i] * L[j][i]\<close>.
\<close>

definition correlate ::
  "npfloat list \<Rightarrow> real list list \<Rightarrow> npfloat list list \<Rightarrow> npfloat list list" where
  "correlate mean_returns random_normals L =
     map (\<lambda>z. map2 nf_add mean_returns
                (map (\<lambda>L_row. nf_sum (map2 (\<lambda>z_i l. nf_mul (Num z_i) l) z L_row)) L))
       random_normals"

text \<open>
  \<^verbatim>\<open>eigenvectors @ np.diag(d)\<close>: the entry \<open>j\<close> of a row is the sum over \<open>k\<close> of the
  row's entry \<open>k\<close> times \<open>d[k]\<close> when \<open>k = j\<close> and times zero otherwise.
\<close>

definition times_diag :: "npfloat list list \<Rightarrow> npfloat list \<Rightarrow> npfloat list list" where
  "times_diag m d =
     map (\<lambda>row.
            map (\<lambda>j. nf_sum (map (\<lambda>k. nf_mul (row ! k) (if k = j then d ! k else Num 0))
                               [0 ..< length row]))
              [0 ..< length d])
       m"

text \<open>The \<^verbatim>\<open>try\<close> with the Cholesky factor (lines 130 to 137).\<close>

definition cholesky_sample ::
  "'g numpy \<Rightarrow> pos_dict list \<Rightarrow> string list \<Rightarrow> npfloat list \<Rightarrow> npfloat list list \<Rightarrow> int \<Rightarrow>
   'g \<Rightarrow> (error + npfloat list) \<times> 'g" where
  "cholesky_sample np positions products mean_returns cov_matrix simulations g =
     (case np_cholesky np cov_matrix of
        Inl e \<Rightarrow> (Inl e, g)
      | Inr L \<Rightarrow>
          (case np_randn np simulations (length products) g of
             (Inl e, g') \<Rightarrow> (Inl e, g')
           | (Inr random_normals, g') \<Rightarrow>
               let correlated_returns = correlate mean_returns random_normals L
               in (aggregate_simulated_returns positions products correlated_returns, g')))"

text \<open>Its handler for \<^verbatim>\<open>LinAlgError\<close>, with the eigenvalues (lines 140 to 148).\<close>

definition eig_sample ::
  "'g numpy \<Rightarrow> pos_dict list \<Rightarrow> string list \<Rightarrow> npfloat list \<Rightarrow> npfloat list list \<Rightarrow> int \<Rightarrow>
   'g \<Rightarrow> (error + npfloat list) \<times> 'g" where
  "eig_sample np positions products mean_returns cov_matrix simulations g =
     (case np_eig np cov_matrix of
        Inl e \<Rightarrow> (Inl e, g)
      | Inr (eigenvalues, eigenvectors) \<Rightarrow>
          let eigenvalues = map nf_maximum_0 eigenvalues;
              L = times_diag eigenvectors (map nf_sqrt eigenvalues)
          in (case np_randn np simulations (length products) g of
                (Inl e, g') \<Rightarrow> (Inl e, g')
              | (Inr random_normals, g') \<Rightarrow>
                  let correlated_returns = correlate mean_returns random_normals L
                  in (aggregate_simulated_returns positions products correlated_returns, g')))"

text \<open>
  The portfolio-level simulated returns \<^verbatim>\<open>portfolio_sim_returns\<close> (lines 113 to 148), for
  a returns dict that is not empty. With one product, \<^verbatim>\<open>np.cov\<close> gives a single number.
\<close>

definition simulate_portfolio_returns ::
  "'g numpy \<Rightarrow> pos_dict list \<Rightarrow> returns_dict \<Rightarrow> int \<Rightarrow> 'g \<Rightarrow> (error + npfloat list) \<times> 'g" where
  "simulate_portfolio_returns np positions returns simulations g =
     (let products = map fst returns;
          min_length = Min (set (map (\<lambda>(p, r). length r) returns));
          returns_matrix = map (\<lambda>(p, r). take min_length r) returns;
          mean_returns = np_mean np returns_matrix;
          cov_matrix = np_cov np returns_matrix
      in if length products = 1 then
           (case cov_matrix of
              [[c]] \<Rightarrow>
                let std_dev = nf_sqrt c
                in (case index_at mean_returns 0 of
                      Inl e \<Rightarrow> (Inl e, g)
                    | Inr mean_0 \<Rightarrow> np_normal np mean_0 std_dev simulations g)
            | _ \<Rightarrow> (Inl ValueError, g))
         else
           (case cholesky_sample np positions products mean_returns cov_matrix simulations g of
              (Inl LinAlgError, g') \<Rightarrow>
                eig_sample np positions products mean_returns cov_matrix simulations g'
            | r \<Rightarrow> r))"

text \<open>The P&L of the sample and its two percentiles (lines 151 to 163).\<close>

definition simulated_var :: "real list \<Rightarrow> real \<Rightarrow> error + var_result" where
  "simulated_var portfolio_sim_returns portfolio_value =
     (let portfolio_pnl = map (\<lambda>r. r * portfolio_value) portfolio_sim_returns;
          sorted_pnl = sort portfolio_pnl
      in bind_err (np_percentile sorted_pnl 5) (\<lambda>p5.
         bind_err (np_percentile sorted_pnl 1) (\<lambda>p1.
           let var_95 = \<bar>p5\<bar>; var_99 = \<bar>p1\<bar>
           in Inr \<lparr>var95 = np_round var_95, var99 = np_round var_99\<rparr>)))"

text \<open>
  The dict that the Monte Carlo method returns: its two figures, or NaN under both keys.
  A sample with a NaN in it has a P&L with a NaN in it, whatever the portfolio value;
  \<^verbatim>\<open>np.sort\<close> puts it last, \<^verbatim>\<open>np.percentile\<close> then gives NaN at every level and
  raises nothing, and \<^verbatim>\<open>abs\<close> and \<^verbatim>\<open>np.round\<close> keep it.
\<close>

datatype figures = Figures var_result | NaN_figures

definition sample_var :: "npfloat list \<Rightarrow> real \<Rightarrow> error + figures" where
  "sample_var portfolio_sim_returns portfolio_value =
     (case nums portfolio_sim_returns of
        None \<Rightarrow> Inr NaN_figures
      | Some sample \<Rightarrow>
          (case simulated_var sample portfolio_value of
             Inl e \<Rightarrow> Inl e
           | Inr result \<Rightarrow> Inr (Figures result)))"

text \<open>
  The handler of \<^verbatim>\<open>calculate_monte_carlo_var\<close> computes the weighted returns again and
  reads the local \<^verbatim>\<open>portfolio_value\<close>.
\<close>

definition monte_carlo_fallback ::
  "pos_dict list \<Rightarrow> returns_dict \<Rightarrow> real option \<Rightarrow> real list \<Rightarrow> error + var_result" where
  "monte_carlo_fallback positions returns portfolio_value confidence_levels =
     bind_err (calculate_portfolio_returns positions returns) (\<lambda>portfolio_returns.
       historical_fallback (Some portfolio_returns) portfolio_value confidence_levels)"

definition calculate_monte_carlo_var ::
  "'g numpy \<Rightarrow> risk_engine \<Rightarrow> pos_dict list \<Rightarrow> returns_dict \<Rightarrow> int \<Rightarrow> real list \<Rightarrow> 'g \<Rightarrow>
   (error + figures) \<times> 'g" where
  "calculate_monte_carlo_var np self positions returns simulations confidence_levels g =
     (case calculate_portfolio_value positions of
        Inl e \<Rightarrow>
          (bind_err (monte_carlo_fallback positions returns None confidence_levels)
             (\<lambda>result. Inr (Figures result)), g)
      | Inr portfolio_value \<Rightarrow>
          if length (map fst returns) = 0 then (Inr (Figures \<lparr>var95 = 0, var99 = 0\<rparr>), g)
          else
            (case simulate_portfolio_returns np positions returns simulations g of
               (Inl e, g') \<Rightarrow>
                 (bind_err (monte_carlo_fallback positions returns (Some portfolio_value)
                              confidence_levels)
                    (\<lambda>result. Inr (Figures result)), g')
             | (Inr portfolio_sim_returns, g') \<Rightarrow>
                 (case sample_var portfolio_sim_returns portfolio_value of
                    Inl e \<Rightarrow>
                      (bind_err (monte_carlo_fallback positions returns (Some portfolio_value)
                                   confidence_levels)
                         (\<lambda>result. Inr (Figures result)), g')
                  | Inr result \<Rightarrow> (Inr result, g'))))"

section \<open>Runs of the engine\<close>

text \<open>
  A request names a method and carries its inputs, as \<^verbatim>\<open>main\<close> reads them; the
  confidence levels are the default of the methods. A call answers the request and
  leaves the generator in the state after the call; only the Monte Carlo method draws.
\<close>

datatype request =
    GarchRequest "pos_dict list" returns_dict
  | MonteCarloRequest "pos_dict list" returns_dict int
  | StressRequest "pos_dict list" prices_dict

datatype response =
    VarResponse "error + figures"
  | StressResponse "error + stress_result list"

fun call_engine ::
  "stats_library \<Rightarrow> 'g numpy \<Rightarrow> risk_engine \<Rightarrow> request \<Rightarrow> 'g \<Rightarrow> response \<times> 'g" where
  "call_engine lib np self (GarchRequest positions returns) g =
     (VarResponse
        (bind_err (calculate_garch_var lib positions returns [0.95, 0.99])
           (\<lambda>result. Inr (Figures result))), g)"
| "call_engine lib np self (MonteCarloRequest positions returns simulations) g =
     (case calculate_monte_carlo_var np self positions returns simulations [0.95, 0.99] g of
        (result, g') \<Rightarrow> (VarResponse result, g'))"
| "call_engine lib np self (StressRequest positions current_prices) g =
     (StressResponse (run_stress_tests positions current_prices), g)"

fun call_sequence ::
  "stats_library \<Rightarrow> 'g numpy \<Rightarrow> risk_engine \<Rightarrow> request list \<Rightarrow> 'g \<Rightarrow> response list \<times> 'g" where
  "call_sequence lib np self [] g = ([], g)"
| "call_sequence lib np self (req # reqs) g =
     (case call_engine lib np self req g of
        (r, g') \<Rightarrow>
          (case call_sequence lib np self reqs g' of (rs, g'') \<Rightarrow> (r # rs, g'')))"

text \<open>
  A program that uses the class constructs engines and calls their methods, one statement
  after the other, in one process with one generator. An instance is named by its number
  in the order of construction; the program keeps the instances in a list, so that a call
  on a number with no instance raises \<^verbatim>\<open>IndexError\<close>. The program goes on after an exception.
  A construction that \<^verbatim>\<open>np.random.seed\<close> refuses leaves the process as it was.
\<close>

datatype event = Construct int | Call nat request

datatype outcome = Constructed nat | Raised error | Answered nat response

record 'g process =
  generator :: 'g
  engines :: "risk_engine list"

fun step ::
  "stats_library \<Rightarrow> 'g numpy \<Rightarrow> event \<Rightarrow> 'g process \<Rightarrow> outcome \<times> 'g process" where
  "step lib np (Construct seed_arg) p =
     (case RiskEngine_init np seed_arg (generator p) of
        Inl e \<Rightarrow> (Raised e, p)
      | Inr (engine, g') \<Rightarrow>
          (Constructed (length (engines p)),
           \<lparr>generator = g', engines = engines p @ [engine]\<rparr>))"
| "step lib np (Call i req) p =
     (if i < length (engines p)
      then (case call_engine lib np (engines p ! i) req (generator p) of
              (r, g') \<Rightarrow> (Answered i r, \<lparr>generator = g', engines = engines p\<rparr>))
      else (Raised IndexError, p))"

fun run_process ::
  "stats_library \<Rightarrow> 'g numpy \<Rightarrow> event list \<Rightarrow> 'g process \<Rightarrow> outcome list \<times> 'g process" where
  "run_process lib np [] p = ([], p)"
| "run_process lib np (ev # evs) p =
     (case step lib np ev p of
        (out, p') \<Rightarrow>
          (case run_process lib np evs p' of (outs, p'') \<Rightarrow> (out # outs, p'')))"

text \<open>The requests that a program makes to the instance \<open>k\<close>, and the answers it gets.\<close>

fun requests_to :: "nat \<Rightarrow> event list \<Rightarrow> request list" where
  "requests_to k [] = []"
| "requests_to k (Construct seed_arg # evs) = requests_to k evs"
| "requests_to k (Call i req # evs) =
     (if i = k then req # requests_to k evs else requests_to k evs)"

fun answers_of :: "nat \<Rightarrow> outcome list \<Rightarrow> response list" where
  "answers_of k [] = []"
| "answers_of k (Answered i r # outs) =
     (if i = k then r # answers_of k outs else answers_of k outs)"
| "answers_of k (out # outs) = answers_of k outs"

text \<open>
  The statements that touch the generator behind the back of the instance \<open>k\<close>: every
  construction, and every Monte Carlo call on another instance.
\<close>

fun disturbs :: "nat \<Rightarrow> event \<Rightarrow> bool" where
  "disturbs k (Construct seed_arg) = True"
| "disturbs k (Call i (MonteCarloRequest positions returns simulations)) = (i \<noteq> k)"
| "disturbs k (Call i req) = False"

section \<open>Notions used in the statements\<close>

text \<open>A position dict that has all five keys.\<close>

definition complete :: "pos_dict \<Rightarrow> bool" where
  "complete pos \<longleftrightarrow>
     product_code pos \<noteq> None \<and> quantity pos \<noteq> None \<and> lotSize pos \<noteq> None \<and>
     currentPrice pos \<noteq> None \<and> position pos \<noteq> None"

text \<open>A number of the request that a double can hold, and one of moderate size.\<close>

definition convertible :: "real \<Rightarrow> bool" where
  "convertible x \<longleftrightarrow> \<bar>fl x\<bar> \<le> max_double"



text \<open>
  The value that linear interpolation gives at the fractional position \<open>t\<close> of a sorted
  sample: the formula inside \<open>np_percentile\<close>.
\<close>

definition interp :: "real list \<Rightarrow> real \<Rightarrow> real" where
  "interp s t =
     s ! nat \<lfloor>t\<rfloor> +
     (s ! min (nat \<lfloor>t\<rfloor> + 1) (length s - 1) - s ! nat \<lfloor>t\<rfloor>) * (t - of_int \<lfloor>t\<rfloor>)"

section \<open>Libraries and inputs for the examples\<close>

text \<open>
  Two settings of the statistics library on which the theorems are run: one without
  the \<^verbatim>\<open>arch\<close> package, one with it and a fit that succeeds. The quantiles are those of
  the standard Normal distribution and of Student's t with five degrees of freedom.
\<close>

definition example_norm_ppf :: "real \<Rightarrow> real" where
  "example_norm_ppf p =
     (if p = 0.05 then - 1.6448536269514729
      else if p = 0.01 then - 2.3263478740408408 else 0)"

definition example_t_ppf :: "real \<Rightarrow> real \<Rightarrow> real" where
  "example_t_ppf p nu =
     (if p = 0.05 then - 2.015048372669157
      else if p = 0.01 then - 3.3649299989072183 else 0)"

definition library_without_arch :: stats_library where
  "library_without_arch =
     \<lparr>ARCH_AVAILABLE = False,
      fit_student_t = (\<lambda>series. Inl (LibraryError ''arch'')),
      fit_normal = (\<lambda>series. Inl (LibraryError ''arch'')),
      t_ppf = example_t_ppf,
      norm_ppf = example_norm_ppf\<rparr>"

definition library_with_arch :: stats_library where
  "library_with_arch =
     \<lparr>ARCH_AVAILABLE = True,
      fit_student_t = (\<lambda>series. Inr (4, Some 5)),
      fit_normal = (\<lambda>series. Inr 4),
      t_ppf = example_t_ppf,
      norm_ppf = example_norm_ppf\<rparr>"

text \<open>
  A small deterministic stand-in for \<^verbatim>\<open>numpy\<close>: the generator state is a counter, a
  seed outside \<open>0 .. 2\<^sup>32 - 1\<close> is refused, a draw reads a fixed cycle of variates and
  advances the counter, a negative sample size or scale is refused, a NaN location or
  scale gives a sample of NaN, the mean of no observations and the covariance of fewer
  than two are NaN, and the two decompositions always raise.
\<close>

definition toy_variate :: "nat \<Rightarrow> real" where
  "toy_variate k = (real (k mod 7) - 3) / 2"

definition toy_mean :: "real list list \<Rightarrow> npfloat list" where
  "toy_mean columns =
     map (\<lambda>col. if col = [] then NaN else Num (sum_list col / real (length col))) columns"

definition toy_cov :: "real list list \<Rightarrow> npfloat list list" where
  "toy_cov columns =
     (let centred = map (\<lambda>col. map (\<lambda>x. x - sum_list col / real (length col)) col) columns
      in map (\<lambda>ci. map (\<lambda>cj. if length ci < 2 then NaN
                              else Num (sum_list (map2 (*) ci cj) / (real (length ci) - 1)))
                    centred)
           centred)"

definition toy_numpy :: "nat numpy" where
  "toy_numpy =
     \<lparr>np_seed = (\<lambda>s. if 0 \<le> s \<and> s < 2 ^ 32 then Inr (nat s) else Inl ValueError),
      np_normal = (\<lambda>loc scale size g.
         if size < 0 then (Inl ValueError, g)
         else (case (loc, scale) of
                 (Num l, Num s) \<Rightarrow>
                   if s < 0 then (Inl ValueError, g)
                   else (Inr (map (\<lambda>i. Num (l + s * toy_variate (g + i))) [0 ..< nat size]),
                         g + nat size)
               | _ \<Rightarrow> (Inr (replicate (nat size) NaN), g + nat size))),
      np_randn = (\<lambda>rows cols g.
         if rows < 0 then (Inl ValueError, g)
         else (Inr (map (\<lambda>i. map (\<lambda>j. toy_variate (g + i * cols + j)) [0 ..< cols])
                      [0 ..< nat rows]),
               g + nat rows * cols)),
      np_mean = toy_mean,
      np_cov = toy_cov,
      np_cholesky = (\<lambda>m. Inl LinAlgError),
      np_eig = (\<lambda>m. Inl LinAlgError)\<rparr>"

text \<open>Positions for the examples.\<close>

definition long_brent :: pos_dict where
  "long_brent =
     \<lparr>product_code = Some ''BRENT'', quantity = Some 1000, lotSize = Some 1,
      currentPrice = Some 85, position = Some ''Long''\<rparr>"

definition short_wti :: pos_dict where
  "short_wti =
     \<lparr>product_code = Some ''WTI'', quantity = Some 500, lotSize = Some 1,
      currentPrice = Some 80, position = Some ''Short''\<rparr>"

definition short_brent :: pos_dict where
  "short_brent =
     \<lparr>product_code = Some ''BRENT'', quantity = Some 1000, lotSize = Some 1,
      currentPrice = Some 85, position = Some ''Short''\<rparr>"

text \<open>A position dict without the key \<^verbatim>\<open>quantity\<close>.\<close>

definition no_quantity :: pos_dict where
  "no_quantity =
     \<lparr>product_code = Some ''BRENT'', quantity = None, lotSize = Some 1,
      currentPrice = Some 85, position = Some ''Long''\<rparr>"

text \<open>A Long position of one unit, for the rounding example.\<close>

definition one_unit_long :: pos_dict where
  "one_unit_long =
     \<lparr>product_code = Some ''BRENT'', quantity = Some 1, lotSize = Some 1,
      currentPrice = Some 85, position = Some ''Long''\<rparr>"

text \<open>A Short position of 200 lots of 10.\<close>

definition short_brent_lots :: pos_dict where
  "short_brent_lots =
     \<lparr>product_code = Some ''BRENT'', quantity = Some 200, lotSize = Some 10,
      currentPrice = Some 85, position = Some ''Short''\<rparr>"

text \<open>Twenty daily returns with a single small loss.\<close>

definition mostly_gains :: "real list" where
  "mostly_gains =
     [0.01, 0.02, - 0.005, 0.015, 0.01, 0.02, 0.03, 0.01, 0.012, 0.011,
      0.02, 0.014, 0.01, 0.025, 0.013, 0.01, 0.02, 0.016, 0.01, 0.018]"



section \<open>Properties of the historical VaR\<close>

lemma var_index_div: "0 < k \<Longrightarrow> var_index n (1 / real k) = n div k"
proof -
  have "\<lfloor>real n * (1 / real k)\<rfloor> = \<lfloor>real n / real k\<rfloor>" by simp
  also have "\<dots> = int (n div k)" by (simp only: floor_divide_of_nat_eq)
  finally show ?thesis by (simp add: var_index_def)
qed

lemma var_index_95: "var_index n 0.05 = n div 20"
  using var_index_div [of 20 n] by simp

lemma var_index_99: "var_index n 0.01 = n div 100"
  using var_index_div [of 100 n] by simp

lemma var_index_95_norm: "var_index n (1 / 20) = n div 20"
  using var_index_div [of 20 n] by simp

lemma var_index_99_norm: "var_index n (1 / 100) = n div 100"
  using var_index_div [of 100 n] by simp

lemma historical_var_nonempty:
  assumes "r \<noteq> []"
  shows "historical_var r v cl =
      Inr \<lparr>var95 = np_round \<bar>sort r ! (length r div 20) * v\<bar>,
           var99 = np_round \<bar>sort r ! (length r div 100) * v\<bar>\<rparr>"
proof -
  from assms have "0 < length r" by simp
  then have "length r div 20 < length r" "length r div 100 < length r" by simp_all
  with assms show ?thesis
    by (simp add: historical_var_def var_index_95_norm var_index_99_norm index_at_def
        bind_err_def Let_def)
qed

lemma historical_var_empty: "historical_var [] v cl = Inr \<lparr>var95 = 0, var99 = 0\<rparr>"
  by (simp add: historical_var_def)

lemma historical_var_total: "\<exists>res. historical_var r v cl = Inr res"
  by (cases "r = []") (simp_all add: historical_var_empty historical_var_nonempty)

text \<open>
  Claim C1. The historical VaR of an empty series is \<open>{var95: 0, var99: 0}\<close>. Of a series
  \<open>r\<close> that is not empty, with \<open>s\<close> its ascending sort and \<open>n\<close> its length, and a
  portfolio value \<open>v\<close> (a sum of absolute values, so not negative), it is
  \<open>var95 = round (|s[floor (n * 0.05)]| * v)\<close> and \<open>var99 = round (|s[floor (n * 0.01)]| * v)\<close>:
  the element at the truncated index, with no interpolation. For \<open>n < 20\<close> both indices
  are 0 and the two figures are equal. (For any number \<open>v\<close> the figures are those of its
  absolute value, the third part.)
\<close>

theorem historical_var_spec:
  "(r = [] \<longrightarrow> historical_var r v cl = Inr \<lparr>var95 = 0, var99 = 0\<rparr>) \<and>
   (r \<noteq> [] \<and> 0 \<le> v \<longrightarrow>
      historical_var r v cl =
        Inr \<lparr>var95 = np_round (\<bar>sort r ! nat \<lfloor>real (length r) * 0.05\<rfloor>\<bar> * v),
             var99 = np_round (\<bar>sort r ! nat \<lfloor>real (length r) * 0.01\<rfloor>\<bar> * v)\<rparr>) \<and>
   (r \<noteq> [] \<longrightarrow>
      historical_var r v cl =
        Inr \<lparr>var95 = np_round (\<bar>sort r ! nat \<lfloor>real (length r) * 0.05\<rfloor>\<bar> * \<bar>v\<bar>),
             var99 = np_round (\<bar>sort r ! nat \<lfloor>real (length r) * 0.01\<rfloor>\<bar> * \<bar>v\<bar>)\<rparr>) \<and>
   (r \<noteq> [] \<and> length r < 20 \<longrightarrow>
      nat \<lfloor>real (length r) * 0.05\<rfloor> = 0 \<and> nat \<lfloor>real (length r) * 0.01\<rfloor> = 0 \<and>
      (\<exists>x. historical_var r v cl = Inr \<lparr>var95 = x, var99 = x\<rparr>))"
proof -
  have i95: "nat \<lfloor>real (length r) * 0.05\<rfloor> = length r div 20"
    using var_index_95 [of "length r"] by (simp add: var_index_def)
  have i99: "nat \<lfloor>real (length r) * 0.01\<rfloor> = length r div 100"
    using var_index_99 [of "length r"] by (simp add: var_index_def)
  have a: "r = [] \<longrightarrow> historical_var r v cl = Inr \<lparr>var95 = 0, var99 = 0\<rparr>"
    by (simp add: historical_var_empty)
  have b: "r \<noteq> [] \<and> 0 \<le> v \<longrightarrow> historical_var r v cl =
        Inr \<lparr>var95 = np_round (\<bar>sort r ! nat \<lfloor>real (length r) * 0.05\<rfloor>\<bar> * v),
             var99 = np_round (\<bar>sort r ! nat \<lfloor>real (length r) * 0.01\<rfloor>\<bar> * v)\<rparr>"
    using historical_var_nonempty [of r v cl] by (simp only: i95 i99) (simp add: abs_mult)
  have b': "r \<noteq> [] \<longrightarrow> historical_var r v cl =
        Inr \<lparr>var95 = np_round (\<bar>sort r ! nat \<lfloor>real (length r) * 0.05\<rfloor>\<bar> * \<bar>v\<bar>),
             var99 = np_round (\<bar>sort r ! nat \<lfloor>real (length r) * 0.01\<rfloor>\<bar> * \<bar>v\<bar>)\<rparr>"
    using historical_var_nonempty [of r v cl] by (simp only: i95 i99) (simp add: abs_mult)
  have c: "r \<noteq> [] \<and> length r < 20 \<longrightarrow>
      nat \<lfloor>real (length r) * 0.05\<rfloor> = 0 \<and> nat \<lfloor>real (length r) * 0.01\<rfloor> = 0 \<and>
      (\<exists>x. historical_var r v cl = Inr \<lparr>var95 = x, var99 = x\<rparr>)"
    using historical_var_nonempty [of r v cl] by (simp only: i95 i99) simp
  show ?thesis by (rule conjI [OF a conjI [OF b conjI [OF b' c]]])
qed

text \<open>
  The theorem at the empty series, at a series of three returns (both indices 0) and at a
  series of twenty losses (indices 1 and 0).
\<close>

theorem historical_var_spec_witness:
  "historical_var [] 1000 [0.95, 0.99] = Inr \<lparr>var95 = 0, var99 = 0\<rparr> \<and>
   [0.02, - 0.03, 0.01 :: real] \<noteq> [] \<and> (0::real) \<le> 1000 \<and>
   length [0.02, - 0.03, 0.01 :: real] < 20 \<and>
   historical_var [0.02, - 0.03, 0.01] 1000 [0.95, 0.99] = Inr \<lparr>var95 = 30, var99 = 30\<rparr> \<and>
   historical_var
     [- 0.01, - 0.02, - 0.03, - 0.04, - 0.05, - 0.06, - 0.07, - 0.08, - 0.09, - 0.10,
      - 0.11, - 0.12, - 0.13, - 0.14, - 0.15, - 0.16, - 0.17, - 0.18, - 0.19, - 0.20]
     1000 [0.95, 0.99] = Inr \<lparr>var95 = 190, var99 = 200\<rparr>"
  using historical_var_spec [of "[]" 1000 "[0.95, 0.99]"]
    historical_var_spec [of "[0.02, - 0.03, 0.01]" 1000 "[0.95, 0.99]"]
    historical_var_spec [of
      "[- 0.01, - 0.02, - 0.03, - 0.04, - 0.05, - 0.06, - 0.07, - 0.08, - 0.09, - 0.10,
        - 0.11, - 0.12, - 0.13, - 0.14, - 0.15, - 0.16, - 0.17, - 0.18, - 0.19, - 0.20]"
      1000 "[0.95, 0.99]"]
  by (simp add: np_round_def)

section \<open>Properties of the rounding to whole units\<close>

lemma np_round_of_int: "np_round (of_int k) = of_int k"
  by (simp add: np_round_def)


section \<open>Properties of double-precision arithmetic\<close>

lemma binary_exponent_eq:
  assumes "2 powi k \<le> \<bar>x\<bar>" "\<bar>x\<bar> < 2 powi (k + 1)"
  shows "binary_exponent x = k"
proof -
  have pos: "0 < \<bar>x\<bar>" using assms(1) by (smt (verit) zero_less_power_int)
  have c: "(2::real) powi j = 2 powr (of_int j)" for j
    using powr_real_of_int' [of 2 j] by simp
  note a = c [of k] and b = c [of "k + 1"]
  from assms(1) a pos have "of_int k \<le> log 2 \<bar>x\<bar>" by (simp add: le_log_iff)
  moreover from assms(2) b pos have "log 2 \<bar>x\<bar> < of_int (k + 1)" by (simp add: log_less_iff)
  ultimately show ?thesis unfolding binary_exponent_def by (simp add: floor_eq_iff)
qed

lemma fl_eq:
  assumes "2 powi k \<le> \<bar>x\<bar>" "\<bar>x\<bar> < 2 powi (k + 1)" "- 1022 \<le> k"
  shows "fl x = of_int (round_even (x / 2 powi (k - 52))) * 2 powi (k - 52)"
proof -
  have "x \<noteq> 0" using assms(1) by (smt (verit) zero_less_power_int)
  then show ?thesis
    using binary_exponent_eq [OF assms(1,2)] assms(3) by (simp add: fl_def Let_def max_def)
qed

lemma fl_0: "fl 0 = 0"
  by (simp add: fl_def)

lemma to_double_0: "to_double 0 = Fin 0"
  by (simp add: to_double_def fl_0 max_double_def)

lemma read_number_to_double:
  "read_number x = (case to_double x of Fin y \<Rightarrow> Inr (Fin y) | NonFinite \<Rightarrow> Inl OverflowError)"
  by (simp add: read_number_def to_double_def)

lemma convertible_to_double: "convertible x \<Longrightarrow> to_double x = Fin (fl x)"
  by (simp add: convertible_def to_double_def)

lemma convertible_read_number: "convertible x \<Longrightarrow> read_number x = Inr (to_double x)"
  by (simp add: convertible_def to_double_def read_number_def)

lemma to_double_1: "to_double (- 17000) = Fin (- 17000)"
  using fl_eq [of "14" "- 17000"]
  by (simp add: to_double_def max_double_def round_even_def power_int_minus)

lemma to_double_2: "to_double (- 12750) = Fin (- 12750)"
  using fl_eq [of "13" "- 12750"]
  by (simp add: to_double_def max_double_def round_even_def power_int_minus)

lemma to_double_3: "to_double (- 8500) = Fin (- 8500)"
  using fl_eq [of "13" "- 8500"]
  by (simp add: to_double_def max_double_def round_even_def power_int_minus)

lemma to_double_4: "to_double (- 1700) = Fin (- 1700)"
  using fl_eq [of "10" "- 1700"]
  by (simp add: to_double_def max_double_def round_even_def power_int_minus)

lemma to_double_5: "to_double (- (51 / 4)) = Fin (- (51 / 4))"
  using fl_eq [of "3" "- (51 / 4)"]
  by (simp add: to_double_def max_double_def round_even_def power_int_minus)

lemma to_double_6: "to_double (- (17 / 2)) = Fin (- (17 / 2))"
  using fl_eq [of "3" "- (17 / 2)"]
  by (simp add: to_double_def max_double_def round_even_def power_int_minus)

lemma to_double_7: "to_double (- (3 / 20)) = Fin (- (5404319552844595 / 36028797018963968))"
  using fl_eq [of "- 3" "- (3 / 20)"]
  by (simp add: to_double_def max_double_def round_even_def power_int_minus)

lemma to_double_8: "to_double (- (1 / 10)) = Fin (- (3602879701896397 / 36028797018963968))"
  using fl_eq [of "- 4" "- (1 / 10)"]
  by (simp add: to_double_def max_double_def round_even_def power_int_minus)

lemma to_double_9: "to_double (1 / 10) = Fin (3602879701896397 / 36028797018963968)"
  using fl_eq [of "- 4" "1 / 10"]
  by (simp add: to_double_def max_double_def round_even_def power_int_minus)

lemma to_double_10: "to_double (30624477466119373 / 36028797018963968) = Fin (7656119366529843 / 9007199254740992)"
  using fl_eq [of "- 1" "30624477466119373 / 36028797018963968"]
  by (simp add: to_double_def max_double_def round_even_def power_int_minus)

lemma to_double_11: "to_double (32425917317067571 / 36028797018963968) = Fin (8106479329266893 / 9007199254740992)"
  using fl_eq [of "- 1" "32425917317067571 / 36028797018963968"]
  by (simp add: to_double_def max_double_def round_even_def power_int_minus)

lemma to_double_12: "to_double 1 = Fin 1"
  using fl_eq [of "0" "1"]
  by (simp add: to_double_def max_double_def round_even_def power_int_minus)

lemma to_double_13: "to_double (39631676720860365 / 36028797018963968) = Fin (2476979795053773 / 2251799813685248)"
  using fl_eq [of "0" "39631676720860365 / 36028797018963968"]
  by (simp add: to_double_def max_double_def round_even_def power_int_minus)

lemma to_double_14: "to_double (17 / 2) = Fin (17 / 2)"
  using fl_eq [of "3" "17 / 2"]
  by (simp add: to_double_def max_double_def round_even_def power_int_minus)

lemma to_double_15: "to_double (306244774661193745 / 36028797018963968) = Fin (17 / 2)"
  using fl_eq [of "3" "306244774661193745 / 36028797018963968"]
  by (simp add: to_double_def max_double_def round_even_def power_int_minus)

lemma to_double_16: "to_double (598134325510145 / 70368744177664) = Fin (598134325510145 / 70368744177664)"
  using fl_eq [of "3" "598134325510145 / 70368744177664"]
  by (simp add: to_double_def max_double_def round_even_def power_int_minus)

lemma to_double_17: "to_double 10 = Fin 10"
  using fl_eq [of "3" "10"]
  by (simp add: to_double_def max_double_def round_even_def power_int_minus)

lemma to_double_18: "to_double (650770146155036655 / 9007199254740992) = Fin (289 / 4)"
  using fl_eq [of "6" "650770146155036655 / 9007199254740992"]
  by (simp add: to_double_def max_double_def round_even_def power_int_minus)

lemma to_double_19: "to_double (689050742987685905 / 9007199254740992) = Fin (153 / 2)"
  using fl_eq [of "6" "689050742987685905 / 9007199254740992"]
  by (simp add: to_double_def max_double_def round_even_def power_int_minus)

lemma to_double_20: "to_double 80 = Fin 80"
  using fl_eq [of "6" "80"]
  by (simp add: to_double_def max_double_def round_even_def power_int_minus)

lemma to_double_21: "to_double 85 = Fin 85"
  using fl_eq [of "6" "85"]
  by (simp add: to_double_def max_double_def round_even_def power_int_minus)

lemma to_double_22: "to_double (210543282579570705 / 2251799813685248) = Fin (6579477580611585 / 70368744177664)"
  using fl_eq [of "6" "210543282579570705 / 2251799813685248"]
  by (simp add: to_double_def max_double_def round_even_def power_int_minus)

lemma to_double_23: "to_double 200 = Fin 200"
  using fl_eq [of "7" "200"]
  by (simp add: to_double_def max_double_def round_even_def power_int_minus)

lemma to_double_24: "to_double 500 = Fin 500"
  using fl_eq [of "8" "500"]
  by (simp add: to_double_def max_double_def round_even_def power_int_minus)

lemma to_double_25: "to_double 1000 = Fin 1000"
  using fl_eq [of "9" "1000"]
  by (simp add: to_double_def max_double_def round_even_def power_int_minus)

lemma to_double_26: "to_double 8500 = Fin 8500"
  using fl_eq [of "13" "8500"]
  by (simp add: to_double_def max_double_def round_even_def power_int_minus)

lemma to_double_27: "to_double (74766790688768125 / 8796093022208) = Fin (584115552256001 / 68719476736)"
  using fl_eq [of "13" "74766790688768125 / 8796093022208"]
  by (simp add: to_double_def max_double_def round_even_def power_int_minus)

lemma to_double_28: "to_double (584115552256001 / 68719476736) = Fin (584115552256001 / 68719476736)"
  using fl_eq [of "13" "584115552256001 / 68719476736"]
  by (simp add: to_double_def max_double_def round_even_def power_int_minus)

lemma to_double_29: "to_double 17000 = Fin 17000"
  using fl_eq [of "14" "17000"]
  by (simp add: to_double_def max_double_def round_even_def power_int_minus)

lemmas to_double_values = to_double_1 to_double_2 to_double_3 to_double_4 to_double_5 to_double_6 to_double_7 to_double_8 to_double_9 to_double_10 to_double_11 to_double_12 to_double_13 to_double_14 to_double_15 to_double_16 to_double_17 to_double_18 to_double_19 to_double_20 to_double_21 to_double_22 to_double_23 to_double_24 to_double_25 to_double_26 to_double_27 to_double_28 to_double_29

lemma example_rounding:
  "np_round (- 8500) = - 8500" "np_round (584115552256001 / 68719476736) = 8500"
  "np_round (- 12750) = - 12750" "np_round 8500 = 8500"
  "np_round (598134325510145 / 70368744177664) = 9" "np_round (17 / 2) = 8"
  by (simp_all add: np_round_def)

lemma to_double_convertible: "to_double x = Fin y \<Longrightarrow> convertible x"
  by (simp add: to_double_def convertible_def split: if_splits)

lemma to_double_fl: "to_double x = Fin y \<Longrightarrow> fl x = y"
  by (simp add: to_double_def split: if_splits)

section \<open>Properties of the stress evaluator\<close>

lemma stress_impact_loop_fold:
  assumes "list_all (\<lambda>pos. complete pos \<and> convertible (the (quantity pos)) \<and>
             convertible (the (lotSize pos)) \<and>
             (case current_prices (the (product_code pos)) of
                None \<Rightarrow> True | Some price \<Rightarrow> convertible price)) positions"
  shows "stress_impact_loop current_prices s t0 positions =
     Inr (foldl (\<lambda>total_impact pos.
                   case current_prices (the (product_code pos)) of
                     None \<Rightarrow> total_impact
                   | Some price \<Rightarrow>
                       fadd total_impact
                         (fmul (fmul (fmul
                            (fsub (fmul (to_double price) (fadd (Fin 1) s)) (to_double price))
                            (to_double (the (quantity pos))))
                            (to_double (the (lotSize pos))))
                            (if position pos = Some ''Long'' then Fin 1 else Fin (- 1))))
            t0 positions)"
  using assms
proof (induction positions arbitrary: t0)
  case Nil
  show ?case by simp
next
  case (Cons pos rest)
  from Cons.prems have c: "complete pos" and q: "convertible (the (quantity pos))"
    and l: "convertible (the (lotSize pos))"
    and p: "case current_prices (the (product_code pos)) of
              None \<Rightarrow> True | Some price \<Rightarrow> convertible price"
    and r: "list_all (\<lambda>pos. complete pos \<and> convertible (the (quantity pos)) \<and>
             convertible (the (lotSize pos)) \<and>
             (case current_prices (the (product_code pos)) of
                None \<Rightarrow> True | Some price \<Rightarrow> convertible price)) rest"
    by simp_all
  from c obtain pc qv lv cp sd where f: "product_code pos = Some pc" "quantity pos = Some qv"
    "lotSize pos = Some lv" "currentPrice pos = Some cp" "position pos = Some sd"
    by (auto simp: complete_def)
  show ?case
  proof (cases "current_prices pc")
    case None
    with f Cons.IH [OF r] show ?thesis
      by (simp add: bind_err_def getitem_def)
  next
    case (Some price)
    with p f have "convertible price" by simp
    with Some f q l Cons.IH [OF r] show ?thesis
      by (simp add: bind_err_def getitem_def Let_def convertible_read_number)
  qed
qed

lemma stress_example:
  "run_stress_tests
     [\<lparr>product_code = Some c, quantity = Some 1000, lotSize = Some 1,
       currentPrice = Some 85, position = Some ''Long''\<rparr>] [c \<mapsto> 85] =
     Inr [\<lparr>scenario = ''-10% Shock'', pnlImpact = Fin (- 8500),
           description = ''10% decline in all oil and fuel prices''\<rparr>,
          \<lparr>scenario = ''+10% Shock'', pnlImpact = Fin 8500,
           description = ''10% increase in all oil and fuel prices''\<rparr>,
          \<lparr>scenario = ''Historical Worst'', pnlImpact = Fin (- 12750),
           description = ''Repeat of historical worst daily oil price decline''\<rparr>]"
  by (simp add: run_stress_tests_def calculate_stress_impact_def bind_err_def getitem_def
      read_number_to_double to_double_values to_double_0 example_rounding)

text \<open>
  Claim C8 says that the total stress impact is the sum of
  \<open>(currentPrice * s) * quantity * lotSize * (+1 if Long else -1)\<close>. The code computes each
  price change as \<open>currentPrice * (1 + s) - currentPrice\<close>, which is the claim's product
  only in exact arithmetic (the third part). What holds on doubles: for every list of
  positions that have all their keys and numbers a double can hold, every map of such
  prices and every shock \<open>s\<close>, the total is the running sum from 0, in list order and
  rounded at every operation, of
  \<open>(price * (1 + s) - price) * quantity * lotSize * (+1 if Long else -1)\<close> over the positions
  whose product has a price in the map; a position whose product has none adds nothing.
  A single Long position of quantity 1000 and lot size 1 whose product is priced at 85.00
  has \<open>pnlImpact\<close> -8500 under the shock of -10% and +8500 under the shock of +10%.
\<close>

theorem stress_impact_spec:
  "(list_all (\<lambda>pos. complete pos \<and> convertible (the (quantity pos)) \<and>
               convertible (the (lotSize pos)) \<and>
               (case current_prices (the (product_code pos)) of
                  None \<Rightarrow> True | Some price \<Rightarrow> convertible price)) positions \<longrightarrow>
      calculate_stress_impact positions current_prices s =
        Inr (foldl (\<lambda>total_impact pos.
                      case current_prices (the (product_code pos)) of
                        None \<Rightarrow> total_impact
                      | Some price \<Rightarrow>
                          fadd total_impact
                            (fmul (fmul (fmul
                               (fsub (fmul (to_double price) (fadd (Fin 1) s))
                                  (to_double price))
                               (to_double (the (quantity pos))))
                               (to_double (the (lotSize pos))))
                               (if position pos = Some ''Long'' then Fin 1 else Fin (- 1))))
               (Fin 0) positions)) \<and>
   run_stress_tests
     [\<lparr>product_code = Some c, quantity = Some 1000, lotSize = Some 1,
       currentPrice = Some 85, position = Some ''Long''\<rparr>] [c \<mapsto> 85] =
     Inr [\<lparr>scenario = ''-10% Shock'', pnlImpact = Fin (- 8500),
           description = ''10% decline in all oil and fuel prices''\<rparr>,
          \<lparr>scenario = ''+10% Shock'', pnlImpact = Fin 8500,
           description = ''10% increase in all oil and fuel prices''\<rparr>,
          \<lparr>scenario = ''Historical Worst'', pnlImpact = Fin (- 12750),
           description = ''Repeat of historical worst daily oil price decline''\<rparr>] \<and>
   (price * (1 + shock) - price) * q * l * m = (price * shock) * q * l * (m :: real)"
proof -
  have a: "list_all (\<lambda>pos. complete pos \<and> convertible (the (quantity pos)) \<and>
               convertible (the (lotSize pos)) \<and>
               (case current_prices (the (product_code pos)) of
                  None \<Rightarrow> True | Some price \<Rightarrow> convertible price)) positions \<longrightarrow>
      calculate_stress_impact positions current_prices s =
        Inr (foldl (\<lambda>total_impact pos.
                      case current_prices (the (product_code pos)) of
                        None \<Rightarrow> total_impact
                      | Some price \<Rightarrow>
                          fadd total_impact
                            (fmul (fmul (fmul
                               (fsub (fmul (to_double price) (fadd (Fin 1) s))
                                  (to_double price))
                               (to_double (the (quantity pos))))
                               (to_double (the (lotSize pos))))
                               (if position pos = Some ''Long'' then Fin 1 else Fin (- 1))))
               (Fin 0) positions)"
    unfolding calculate_stress_impact_def by (rule impI) (rule stress_impact_loop_fold)
  have b: "(price * (1 + shock) - price) * q * l * m = (price * shock) * q * l * m"
    by (simp add: algebra_simps)
  show ?thesis by (rule conjI [OF a conjI [OF stress_example b]])
qed

text \<open>
  The theorem at a book of three positions: a Long one and a Short one of 200 lots of 10
  in a priced product and one in a product without a price, under a shock of -10%.
\<close>

theorem stress_impact_spec_witness:
  "list_all (\<lambda>pos. complete pos \<and> convertible (the (quantity pos)) \<and>
               convertible (the (lotSize pos)) \<and>
               (case [''BRENT'' \<mapsto> 85] (the (product_code pos)) of
                  None \<Rightarrow> True | Some price \<Rightarrow> convertible price))
     [long_brent, short_brent_lots, short_wti] \<and>
   calculate_stress_impact [long_brent, short_brent_lots, short_wti] [''BRENT'' \<mapsto> 85]
     (to_double (- 0.10)) = Inr (Fin 8500)"
proof -
  have c: "convertible 1000" "convertible 1" "convertible 200" "convertible 10"
    "convertible 500" "convertible 85"
    by (rule to_double_convertible, simp add: to_double_values)+
  have h: "list_all (\<lambda>pos. complete pos \<and> convertible (the (quantity pos)) \<and>
               convertible (the (lotSize pos)) \<and>
               (case [''BRENT'' \<mapsto> 85] (the (product_code pos)) of
                  None \<Rightarrow> True | Some price \<Rightarrow> convertible price))
     [long_brent, short_brent_lots, short_wti]"
    by (simp add: complete_def long_brent_def short_brent_lots_def short_wti_def c)
  note t = stress_impact_spec [THEN conjunct1, THEN mp, OF h, of "to_double (- 0.10)"]
  have "calculate_stress_impact [long_brent, short_brent_lots, short_wti] [''BRENT'' \<mapsto> 85]
     (to_double (- 0.10)) = Inr (Fin 8500)"
    unfolding t
    by (simp add: long_brent_def short_brent_lots_def short_wti_def to_double_values
        to_double_0)
  with h show ?thesis by (rule conjI)
qed

text \<open>
  The claim as stated fails on one Long position of one unit priced at 85 under the
  shock of +10%. The code's total is 8.500000000000014 (eight doubles above 8.5). The
  claim's formula gives 8.50000000000000047 when it is evaluated exactly on the shock
  the code receives and 8.5 when it is evaluated on doubles; the rounded figures are 9
  and 8.
\<close>

theorem stress_formula_counterexample:
  "calculate_stress_impact [one_unit_long] [''BRENT'' \<mapsto> 85] (to_double 0.10) =
     Inr (Fin (598134325510145 / 70368744177664)) \<and>
   (85 * fl 0.10) * 1 * 1 * 1 \<noteq> 598134325510145 / 70368744177664 \<and>
   fmul (fmul (fmul (fmul (Fin 85) (to_double 0.10)) (Fin 1)) (Fin 1)) (Fin 1) = Fin (17 / 2) \<and>
   round_double (Fin (598134325510145 / 70368744177664)) = Fin 9 \<and>
   round_double (Fin (17 / 2)) = Fin 8"
proof -
  have a: "calculate_stress_impact [one_unit_long] [''BRENT'' \<mapsto> 85] (to_double 0.10) =
     Inr (Fin (598134325510145 / 70368744177664))"
    by (simp add: calculate_stress_impact_def bind_err_def getitem_def one_unit_long_def
        read_number_to_double to_double_values to_double_0)
  have "to_double (1 / 10) = Fin (3602879701896397 / 36028797018963968)"
    by (simp add: to_double_values)
  then have "fl (1 / 10) = 3602879701896397 / 36028797018963968"
    by (rule to_double_fl)
  then have b: "(85 * fl 0.10) * 1 * 1 * 1 \<noteq> 598134325510145 / 70368744177664"
    by simp
  have c: "fmul (fmul (fmul (fmul (Fin 85) (to_double 0.10)) (Fin 1)) (Fin 1)) (Fin 1) =
      Fin (17 / 2)"
    by (simp add: to_double_values)
  have d: "round_double (Fin (598134325510145 / 70368744177664)) = Fin 9"
    "round_double (Fin (17 / 2)) = Fin 8"
    by (simp_all add: example_rounding)
  show ?thesis by (rule conjI [OF a conjI [OF b conjI [OF c conjI [OF d]]]])
qed

section \<open>Properties of the volatility forecaster\<close>

lemma sum_position_values_ge: "sum_position_values t0 ps = Inr v \<Longrightarrow> t0 \<le> v"
proof (induction ps arbitrary: t0)
  case Nil
  then show ?case by simp
next
  case (Cons pos rest)
  then obtain x where x: "position_value pos = Inr x" and r: "sum_position_values (t0 + x) rest = Inr v"
    by (auto simp: bind_err_def split: sum.splits)
  from x have "0 \<le> x"
    by (auto simp: position_value_def bind_err_def getitem_def split: option.splits)
  with Cons.IH [OF r] show ?case by simp
qed

lemma calculate_portfolio_value_nonneg: "calculate_portfolio_value ps = Inr v \<Longrightarrow> 0 \<le> v"
  using sum_position_values_ge [of 0 ps v] by (simp add: calculate_portfolio_value_def)

lemma sum_list_map_upt: "sum_list (map f [0 ..< n]) = (\<Sum>j<n. f j)"
  by (simp add: interv_sum_list_conv_sum_set_nat atLeast0LessThan)

lemma weighted_sum_rev:
  fixes f :: "nat \<Rightarrow> real" and g :: "real \<Rightarrow> real"
  shows "sum_list (map2 (*) (map (\<lambda>w. w / S) (map f [0 ..< length r])) (rev (map g r))) =
         (\<Sum>i<length r. f i / S * g (r ! (length r - 1 - i)))"
proof -
  let ?zs = "map2 (*) (map (\<lambda>w. w / S) (map f [0 ..< length r])) (rev (map g r))"
  have len: "length ?zs = length r" by simp
  have nth: "?zs ! i = f i / S * g (r ! (length r - 1 - i))" if "i < length r" for i
    using that by (simp add: rev_nth)
  have "sum_list ?zs = (\<Sum>i = 0 ..< length r. ?zs ! i)"
    using len by (simp only: sum_list_sum_nth)
  also have "\<dots> = (\<Sum>i = 0 ..< length r. f i / S * g (r ! (length r - 1 - i)))"
    by (rule sum.cong) (simp_all only: nth atLeastLessThan_iff)
  finally show ?thesis by (simp only: atLeast0LessThan)
qed

lemma simplified_garch_variance:
  "sum_list (map2 (*) (map (\<lambda>w. w / sum_list (map (\<lambda>i. (1 - 0.94) * 0.94 ^ i) [0 ..< length r]))
            (map (\<lambda>i. (1 - 0.94) * 0.94 ^ i) [0 ..< length r])) (rev (map (\<lambda>x. x ^ 2) r)))
         = spec_ewma_variance r"
  unfolding spec_ewma_variance_def spec_ewma_weight_def weighted_sum_rev sum_list_map_upt ..

lemma simplified_garch_spec:
  "simplified_garch lib r pv =
     (\<bar>norm_ppf lib 0.05 * sqrt (spec_ewma_variance r) * pv\<bar>,
      \<bar>norm_ppf lib 0.01 * sqrt (spec_ewma_variance r) * pv\<bar>)"
  unfolding simplified_garch_def Let_def length_map simplified_garch_variance ..

lemma spec_ewma_weight_sum: "0 < n \<Longrightarrow> (\<Sum>i<n. spec_ewma_weight n i) = 1"
proof -
  assume n: "0 < n"
  have "0 < (\<Sum>j<n. (1 - 0.94) * (0.94::real) ^ j)"
    by (rule sum_pos) (use n in auto)
  then show ?thesis
    by (simp add: spec_ewma_weight_def flip: sum_divide_distrib)
qed

lemma spec_ewma_weight_nonneg: "0 \<le> spec_ewma_weight n i"
  by (simp add: spec_ewma_weight_def sum_nonneg)

lemma spec_ewma_variance_nonneg: "0 \<le> spec_ewma_variance r"
  by (simp add: spec_ewma_variance_def sum_nonneg spec_ewma_weight_nonneg)

lemma example_book_value: "calculate_portfolio_value [long_brent, short_wti] = Inr 125000"
  by (simp add: calculate_portfolio_value_def position_value_def bind_err_def getitem_def
      long_brent_def short_wti_def)

lemma example_book_returns:
  "calculate_portfolio_returns [long_brent, short_wti]
     [(''BRENT'', [0.01, - 0.02, 0.03]), (''WTI'', [0.02, 0.01, - 0.01, 0.05])] =
   Inr [0.0004, - 0.0168, 0.0236]"
  by (simp add: calculate_portfolio_returns_def calculate_portfolio_value_def
      position_value_def bind_err_def getitem_def long_brent_def short_wti_def)

lemma spec_ewma_variance_replicate:
  assumes "0 < n"
  shows "spec_ewma_variance (replicate n c) = c ^ 2"
proof -
  have "spec_ewma_variance (replicate n c) = (\<Sum>i<n. spec_ewma_weight n i * c ^ 2)"
    unfolding spec_ewma_variance_def by (rule sum.cong) (use assms in auto)
  also have "\<dots> = (\<Sum>i<n. spec_ewma_weight n i) * c ^ 2"
    by (simp add: sum_distrib_right)
  finally show ?thesis using spec_ewma_weight_sum [OF assms] by simp
qed

lemma hundred_days_value: "calculate_portfolio_value [long_brent] = Inr 85000"
  by (simp add: calculate_portfolio_value_def position_value_def bind_err_def getitem_def
      long_brent_def)

lemma hundred_days_returns:
  "calculate_portfolio_returns [long_brent] [(''BRENT'', replicate 100 0.01)] =
     Inr (replicate 100 0.01)"
  by (simp add: calculate_portfolio_returns_def calculate_portfolio_value_def
      position_value_def bind_err_def getitem_def long_brent_def)

lemma short_series_is_historical:
  assumes "calculate_portfolio_value positions = Inr pv"
    and "calculate_portfolio_returns positions returns = Inr pr"
    and "length pr < 100"
  shows "garch_estimate lib pr pv cl = historical_var pr pv cl \<and>
         calculate_garch_var lib positions returns cl = historical_var pr pv cl"
proof -
  from assms(3) have e: "garch_estimate lib pr pv cl = historical_var pr pv cl"
    by (simp add: garch_estimate_def)
  obtain res where "historical_var pr pv cl = Inr res"
    using historical_var_total by blast
  with e assms(1,2) show ?thesis
    by (simp add: calculate_garch_var_def)
qed

text \<open>
  Claim C4. For every input whose weighted portfolio return series has fewer than 100
  observations, \<open>calculate_garch_var\<close> returns the historical VaR of that series: the body
  of the method returns it before any fit, whatever the statistics library would do.
\<close>

theorem garch_short_series:
  assumes "calculate_portfolio_value positions = Inr pv"
    and "calculate_portfolio_returns positions returns = Inr pr"
    and "length pr < 100"
  shows "garch_estimate lib pr pv cl = historical_var pr pv cl \<and>
         calculate_garch_var lib positions returns cl = historical_var pr pv cl"
  using assms by (rule short_series_is_historical)

text \<open>
  The theorem at a book of two instruments with three and four observations, with a
  library whose fit would succeed.
\<close>

theorem garch_short_series_witness:
  "calculate_portfolio_value [long_brent, short_wti] = Inr 125000 \<and>
   calculate_portfolio_returns [long_brent, short_wti]
     [(''BRENT'', [0.01, - 0.02, 0.03]), (''WTI'', [0.02, 0.01, - 0.01, 0.05])] =
     Inr [0.0004, - 0.0168, 0.0236] \<and>
   length [0.0004, - 0.0168, 0.0236 :: real] < 100 \<and>
   calculate_garch_var library_with_arch [long_brent, short_wti]
     [(''BRENT'', [0.01, - 0.02, 0.03]), (''WTI'', [0.02, 0.01, - 0.01, 0.05])] [0.95, 0.99] =
     Inr \<lparr>var95 = 2100, var99 = 2100\<rparr>"
proof -
  have l: "length [0.0004, - 0.0168, 0.0236 :: real] < 100" by simp
  have h: "historical_var [0.0004, - 0.0168, 0.0236] 125000 [0.95, 0.99] =
      Inr \<lparr>var95 = 2100, var99 = 2100\<rparr>"
    by (simp add: historical_var_nonempty np_round_def)
  from garch_short_series [OF example_book_value example_book_returns l,
      of library_with_arch "[0.95, 0.99]"] h example_book_value example_book_returns l
  show ?thesis by simp
qed

text \<open>
  Claim C7. Without the conditional-volatility library and with at least 100
  observations, the variance is the normalised EWMA of decay 0.94: the weight
  \<open>(1 - \<lambda>) \<lambda>\<^sup>i\<close>, divided by the sum of all the weights so that they add up to 1, is on
  the squared return at lag \<open>i\<close> from the most recent observation backward; \<open>var95\<close> and
  \<open>var99\<close> are the absolute Normal quantiles at 5% and 1% times the square root of the
  variance times the portfolio value, rounded to the nearest whole unit.
\<close>

theorem ewma_fallback:
  assumes "\<not> ARCH_AVAILABLE lib"
    and "calculate_portfolio_value positions = Inr pv"
    and "calculate_portfolio_returns positions returns = Inr pr"
    and "100 \<le> length pr"
  shows "calculate_garch_var lib positions returns cl =
           Inr \<lparr>var95 = np_round (\<bar>norm_ppf lib 0.05\<bar> * sqrt (spec_ewma_variance pr) * pv),
                var99 = np_round (\<bar>norm_ppf lib 0.01\<bar> * sqrt (spec_ewma_variance pr) * pv)\<rparr> \<and>
         (\<Sum>i<length pr. spec_ewma_weight (length pr) i) = 1"
proof -
  have pv: "0 \<le> pv" using assms(2) by (rule calculate_portfolio_value_nonneg)
  have v: "0 \<le> sqrt (spec_ewma_variance pr)"
    using spec_ewma_variance_nonneg by simp
  have a: "\<bar>z * sqrt (spec_ewma_variance pr) * pv\<bar> = \<bar>z\<bar> * sqrt (spec_ewma_variance pr) * pv" for z
    using pv v by (simp add: abs_mult)
  from assms(1,4) have "garch_estimate lib pr pv cl =
      Inr \<lparr>var95 = np_round (\<bar>norm_ppf lib 0.05\<bar> * sqrt (spec_ewma_variance pr) * pv),
           var99 = np_round (\<bar>norm_ppf lib 0.01\<bar> * sqrt (spec_ewma_variance pr) * pv)\<rparr>"
    by (simp add: garch_estimate_def bind_err_def simplified_garch_spec a)
  with assms(2,3) have "calculate_garch_var lib positions returns cl =
      Inr \<lparr>var95 = np_round (\<bar>norm_ppf lib 0.05\<bar> * sqrt (spec_ewma_variance pr) * pv),
           var99 = np_round (\<bar>norm_ppf lib 0.01\<bar> * sqrt (spec_ewma_variance pr) * pv)\<rparr>"
    by (simp add: calculate_garch_var_def)
  moreover from assms(4) have "(\<Sum>i<length pr. spec_ewma_weight (length pr) i) = 1"
    by (intro spec_ewma_weight_sum) auto
  ultimately show ?thesis by simp
qed

text \<open>
  The theorem at one Long position and a hundred daily returns of 1%: the variance is
  0.0001, the volatility 0.01.
\<close>

theorem ewma_fallback_witness:
  "\<not> ARCH_AVAILABLE library_without_arch \<and>
   calculate_portfolio_value [long_brent] = Inr 85000 \<and>
   calculate_portfolio_returns [long_brent] [(''BRENT'', replicate 100 0.01)] =
     Inr (replicate 100 0.01) \<and>
   100 \<le> length (replicate 100 (0.01 :: real)) \<and>
   calculate_garch_var library_without_arch [long_brent] [(''BRENT'', replicate 100 0.01)]
     [0.95, 0.99] = Inr \<lparr>var95 = 1398, var99 = 1977\<rparr>"
proof -
  have a: "\<not> ARCH_AVAILABLE library_without_arch" by (simp add: library_without_arch_def)
  have l: "100 \<le> length (replicate 100 (0.01 :: real))" by simp
  have s: "sqrt (spec_ewma_variance (replicate 100 0.01)) = 0.01"
    by (simp add: spec_ewma_variance_replicate)
  have n: "norm_ppf library_without_arch 0.05 = - 1.6448536269514729"
    "norm_ppf library_without_arch 0.01 = - 2.3263478740408408"
    by (simp_all add: library_without_arch_def example_norm_ppf_def)
  have r: "np_round (\<bar>- 1.6448536269514729\<bar> * 0.01 * 85000) = 1398"
    "np_round (\<bar>- 2.3263478740408408\<bar> * 0.01 * 85000) = 1977"
    by (simp_all add: np_round_def)
  from ewma_fallback [OF a hundred_days_value hundred_days_returns l, of "[0.95, 0.99]"]
  have "calculate_garch_var library_without_arch [long_brent]
     [(''BRENT'', replicate 100 0.01)] [0.95, 0.99] = Inr \<lparr>var95 = 1398, var99 = 1977\<rparr>"
    by (simp only: s n r)
  with a l hundred_days_value hundred_days_returns show ?thesis by simp
qed

section \<open>Properties of the failure handlers\<close>

text \<open>
  Once the portfolio value and the weighted returns are computed, neither method lets
  an exception through: whatever a later stage raises, the handler returns the
  historical VaR.
\<close>

lemma garch_fallback_after_preliminaries:
  assumes "calculate_portfolio_value positions = Inr pv"
    and "calculate_portfolio_returns positions returns = Inr pr"
  shows "(\<exists>res. calculate_garch_var lib positions returns cl = Inr res) \<and>
         (\<forall>e. garch_estimate lib pr pv cl = Inl e \<longrightarrow>
            calculate_garch_var lib positions returns cl = historical_var pr pv cl)"
  using assms historical_var_total [of pr pv cl]
  by (auto simp: calculate_garch_var_def historical_fallback_def split: sum.splits)

lemma monte_carlo_fallback_after_preliminaries:
  assumes "calculate_portfolio_value positions = Inr pv"
    and "calculate_portfolio_returns positions returns = Inr pr"
  shows "\<exists>res. fst (calculate_monte_carlo_var np self positions returns n cl g) = Inr res"
  using assms historical_var_total [of pr pv cl]
  by (auto simp: calculate_monte_carlo_var_def monte_carlo_fallback_def
      historical_fallback_def bind_err_def split: sum.splits prod.splits)

text \<open>
  Claim C2 says that every exception of an internal stage, those of the preliminary
  portfolio computations included, is caught and answered with the historical VaR. On a
  position without the key \<^verbatim>\<open>quantity\<close> the portfolio value raises \<^verbatim>\<open>KeyError\<close> inside
  the \<^verbatim>\<open>try\<close>. The handler of \<open>calculate_garch_var\<close> then reads the local
  \<^verbatim>\<open>portfolio_returns\<close>, which was never assigned, and \<^verbatim>\<open>UnboundLocalError\<close> leaves the
  method. The handler of \<open>calculate_monte_carlo_var\<close> computes the weighted returns
  again, which raises the same \<^verbatim>\<open>KeyError\<close>; with an empty returns dict it gets as far
  as reading the unassigned \<^verbatim>\<open>portfolio_value\<close>.
\<close>

theorem fallback_reads_unbound_locals:
  "calculate_garch_var library_with_arch [no_quantity] [(''BRENT'', [0.01, - 0.02, 0.03])]
     [0.95, 0.99] = Inl (UnboundLocalError ''portfolio_returns'') \<and>
   fst (calculate_monte_carlo_var toy_numpy \<lparr>seed = 42\<rparr> [no_quantity]
     [(''BRENT'', [0.01, - 0.02, 0.03])] 1000 [0.95, 0.99] 42) = Inl (KeyError ''quantity'') \<and>
   fst (calculate_monte_carlo_var toy_numpy \<lparr>seed = 42\<rparr> [no_quantity] [] 1000
     [0.95, 0.99] 42) = Inl (UnboundLocalError ''portfolio_value'')"
  by (simp add: calculate_garch_var_def calculate_monte_carlo_var_def monte_carlo_fallback_def
      historical_fallback_def calculate_portfolio_returns_def calculate_portfolio_value_def
      position_value_def bind_err_def getitem_def no_quantity_def)

section \<open>Properties of the Monte Carlo simulation\<close>

lemma sqrt_example: "sqrt (1 / 2500) = 1 / 50"
  by (rule real_sqrt_unique) (simp_all add: power2_eq_square)

lemma toy_single_stats:
  "toy_mean [[0, 1 / 50, 1 / 25]] = [Num (1 / 50)]"
  "toy_cov [[0, 1 / 50, 1 / 25]] = [[Num (1 / 2500)]]"
  by (simp_all add: toy_mean_def toy_cov_def)

lemma upt_3: "[0 ..< 3] = [0, 1, 2]"
  by code_simp

lemma toy_draws:
  "map (\<lambda>i. Num (1 / 50 + toy_variate i / 50)) [0 ..< 3] =
     [Num (- (1 / 100)), Num 0, Num (1 / 100)]"
  by (simp add: toy_variate_def upt_3)

text \<open>With a single product the simulated portfolio returns do not read the positions.\<close>

lemma single_instrument_ignores_positions:
  "length returns = 1 \<Longrightarrow>
   simulate_portfolio_returns np positions returns n g =
   simulate_portfolio_returns np [] returns n g"
  by (simp add: simulate_portfolio_returns_def)

text \<open>
  Claim C6 says that the portfolio-level simulated returns come from the aggregation
  rule in the single-instrument case as well. For one Short position in the only
  simulated product the rule gives the draws with their sign changed (weight 1, sign
  -1), as the second equation shows on the draws of the first; the method takes the
  draws as they are.
\<close>

theorem single_instrument_not_aggregated:
  "simulate_portfolio_returns toy_numpy [short_brent] [(''BRENT'', [0, 0.02, 0.04])] 3 0 =
     (Inr [Num (- 0.01), Num 0, Num 0.01], 3) \<and>
   aggregate_simulated_returns [short_brent] [''BRENT'']
     [[Num (- 0.01)], [Num 0], [Num 0.01]] = Inr [Num 0.01, Num 0, Num (- 0.01)]"
proof -
  have "simulate_portfolio_returns toy_numpy [short_brent] [(''BRENT'', [0, 0.02, 0.04])] 3 0 =
     (Inr [Num (- 0.01), Num 0, Num 0.01], 3)"
    by (simp add: simulate_portfolio_returns_def toy_single_stats toy_numpy_def sqrt_example
        index_at_def toy_draws)
  moreover have "aggregate_simulated_returns [short_brent] [''BRENT'']
      [[Num (- 0.01)], [Num 0], [Num 0.01]] = Inr [Num 0.01, Num 0, Num (- 0.01)]"
    by (simp add: aggregate_simulated_returns_def calculate_portfolio_value_def
        position_value_def bind_err_def getitem_def short_brent_def column_def)
  ultimately show ?thesis by simp
qed

section \<open>Order of the two VaR figures\<close>

lemma np_round_cases: "np_round x = of_int \<lfloor>x\<rfloor> \<or> np_round x = of_int (\<lfloor>x\<rfloor> + 1)"
  by (simp add: np_round_def Let_def)

lemma np_round_lower: "of_int \<lfloor>x\<rfloor> \<le> np_round x"
  by (simp add: np_round_def Let_def)

lemma np_round_upper: "np_round x \<le> of_int (\<lfloor>x\<rfloor> + 1)"
  by (simp add: np_round_def Let_def)

lemma np_round_mono:
  assumes "x \<le> y"
  shows "np_round x \<le> np_round y"
proof (cases "\<lfloor>x\<rfloor> = \<lfloor>y\<rfloor>")
  case True
  then have "x - of_int \<lfloor>x\<rfloor> \<le> y - of_int \<lfloor>y\<rfloor>" using assms by simp
  then show ?thesis using True
    by (auto simp: np_round_def Let_def)
next
  case False
  with assms have "\<lfloor>x\<rfloor> < \<lfloor>y\<rfloor>" by (simp add: floor_mono order.not_eq_order_implies_strict)
  then have "\<lfloor>x\<rfloor> + 1 \<le> \<lfloor>y\<rfloor>" by simp
  then have "(of_int (\<lfloor>x\<rfloor> + 1) :: real) \<le> of_int \<lfloor>y\<rfloor>" by (simp only: of_int_le_iff)
  with np_round_upper [of x] np_round_lower [of y] show ?thesis by linarith
qed

lemma floor_le_pred:
  assumes "t \<le> real n - 1"
  shows "\<lfloor>t\<rfloor> \<le> int n - 1"
proof -
  have "real_of_int \<lfloor>t\<rfloor> \<le> t" by (rule of_int_floor_le)
  moreover have "real_of_int (int n - 1) = real n - 1" by simp
  ultimately have "real_of_int \<lfloor>t\<rfloor> \<le> real_of_int (int n - 1)" using assms by linarith
  then show ?thesis by (simp only: of_int_le_iff)
qed

lemma interp_bounds:
  assumes "sorted s" "0 \<le> t" "t \<le> real (length s) - 1" "s \<noteq> []"
  shows "s ! nat \<lfloor>t\<rfloor> \<le> interp s t" "interp s t \<le> s ! min (nat \<lfloor>t\<rfloor> + 1) (length s - 1)"
proof -
  let ?lo = "nat \<lfloor>t\<rfloor>" and ?hi = "min (nat \<lfloor>t\<rfloor> + 1) (length s - 1)"
  let ?g = "t - of_int \<lfloor>t\<rfloor>"
  have n: "0 < length s" using assms(4) by simp
  have "\<lfloor>t\<rfloor> \<le> int (length s) - 1" using assms(3) by (rule floor_le_pred)
  then have lo: "?lo \<le> length s - 1" using n by linarith
  then have lohi: "?lo \<le> ?hi" by simp
  have hi: "?hi < length s" using n by arith
  have d: "s ! ?lo \<le> s ! ?hi" using assms(1) lohi hi by (rule sorted_nth_mono)
  have g: "0 \<le> ?g" "?g \<le> 1" by linarith+
  have "0 \<le> (s ! ?hi - s ! ?lo) * ?g" using d g by simp
  then show "s ! nat \<lfloor>t\<rfloor> \<le> interp s t" by (simp add: interp_def)
  have "(s ! ?hi - s ! ?lo) * ?g \<le> (s ! ?hi - s ! ?lo) * 1"
    using d g by (intro mult_left_mono) simp_all
  then show "interp s t \<le> s ! ?hi" by (simp add: interp_def)
qed

lemma interp_mono:
  assumes "sorted s" "0 \<le> t" "t \<le> u" "u \<le> real (length s) - 1" "s \<noteq> []"
  shows "interp s t \<le> interp s u"
proof (cases "\<lfloor>t\<rfloor> = \<lfloor>u\<rfloor>")
  case True
  let ?lo = "nat \<lfloor>u\<rfloor>" and ?hi = "min (nat \<lfloor>u\<rfloor> + 1) (length s - 1)"
  have n: "0 < length s" using assms(5) by simp
  have "\<lfloor>u\<rfloor> \<le> int (length s) - 1" using assms(4) by (rule floor_le_pred)
  then have lo: "?lo \<le> length s - 1" using n by linarith
  then have lohi: "?lo \<le> ?hi" by simp
  have hi: "?hi < length s" using n by arith
  have d: "0 \<le> s ! ?hi - s ! ?lo" using sorted_nth_mono [OF assms(1) lohi hi] by simp
  have "t - of_int \<lfloor>u\<rfloor> \<le> u - of_int \<lfloor>u\<rfloor>" using assms(3) by simp
  then have "(s ! ?hi - s ! ?lo) * (t - of_int \<lfloor>u\<rfloor>) \<le> (s ! ?hi - s ! ?lo) * (u - of_int \<lfloor>u\<rfloor>)"
    using d by (rule mult_left_mono)
  then show ?thesis using True by (simp add: interp_def)
next
  case False
  have u0: "0 \<le> u" using assms(2,3) by simp
  have tn: "t \<le> real (length s) - 1" using assms(3,4) by simp
  from False assms(3) have "\<lfloor>t\<rfloor> < \<lfloor>u\<rfloor>"
    by (simp add: floor_mono order.not_eq_order_implies_strict)
  moreover have "0 \<le> \<lfloor>t\<rfloor>" using assms(2) by simp
  ultimately have lt: "nat \<lfloor>t\<rfloor> + 1 \<le> nat \<lfloor>u\<rfloor>" by linarith
  have n: "0 < length s" using assms(5) by simp
  have "\<lfloor>u\<rfloor> \<le> int (length s) - 1" using assms(4) by (rule floor_le_pred)
  then have lo: "nat \<lfloor>u\<rfloor> < length s" using n by linarith
  have "min (nat \<lfloor>t\<rfloor> + 1) (length s - 1) \<le> nat \<lfloor>u\<rfloor>" using lt by simp
  then have "s ! min (nat \<lfloor>t\<rfloor> + 1) (length s - 1) \<le> s ! nat \<lfloor>u\<rfloor>"
    using assms(1) lo by (intro sorted_nth_mono)
  with interp_bounds(2) [OF assms(1,2) tn assms(5)] interp_bounds(1) [OF assms(1) u0 assms(4,5)]
  show ?thesis by linarith
qed

lemma np_percentile_interp:
  "0 \<le> q \<Longrightarrow> q \<le> 100 \<Longrightarrow> a \<noteq> [] \<Longrightarrow>
   np_percentile a q = Inr (interp (sort a) ((real (length a) - 1) * (q / 100)))"
  by (simp add: np_percentile_def interp_def Let_def)

lemma np_percentile_mono:
  assumes "np_percentile a 1 = Inr p1" "np_percentile a 5 = Inr p5"
  shows "p1 \<le> p5"
proof -
  from assms(1) have a: "a \<noteq> []" by (auto simp: np_percentile_def split: if_splits)
  then have n: "1 \<le> real (length a)" by (cases a) simp_all
  have "interp (sort a) ((real (length a) - 1) * (1 / 100)) \<le> interp (sort a) ((real (length a) - 1) * (5 / 100))"
  proof (rule interp_mono)
    show "sorted (sort a)" by simp
    show "0 \<le> (real (length a) - 1) * (1 / 100)" using n by simp
    show "(real (length a) - 1) * (1 / 100) \<le> (real (length a) - 1) * (5 / 100)" using n by simp
    show "(real (length a) - 1) * (5 / 100) \<le> real (length (sort a)) - 1" using n by simp
    show "sort a \<noteq> []" using a by (metis length_sort length_0_conv)
  qed
  with assms a show ?thesis by (simp add: np_percentile_interp)
qed

lemma abs_scale_mono:
  fixes a b c d :: real
  assumes "\<bar>a\<bar> \<le> \<bar>b\<bar>"
  shows "\<bar>a * c * d\<bar> \<le> \<bar>b * c * d\<bar>"
  using assms by (simp add: abs_mult mult_right_mono)

lemma historical_order:
  assumes "historical_var r v cl = Inr res" "r \<noteq> []" "sort r ! var_index (length r) 0.05 \<le> 0"
  shows "var95 res \<le> var99 res"
proof -
  let ?s = "sort r"
  have n: "0 < length r" using assms(2) by simp
  have "length r div 100 \<le> length r div 20" by (rule div_le_mono2) simp_all
  moreover have "length r div 20 < length ?s" using n by simp
  ultimately have le: "?s ! (length r div 100) \<le> ?s ! (length r div 20)"
    by (intro sorted_nth_mono) simp_all
  with assms(3) have "\<bar>?s ! (length r div 20)\<bar> \<le> \<bar>?s ! (length r div 100)\<bar>"
    by (simp add: var_index_95_norm)
  then have "\<bar>?s ! (length r div 20) * v\<bar> \<le> \<bar>?s ! (length r div 100) * v\<bar>"
    by (simp add: abs_mult mult_right_mono)
  then have "np_round \<bar>?s ! (length r div 20) * v\<bar> \<le> np_round \<bar>?s ! (length r div 100) * v\<bar>"
    by (rule np_round_mono)
  with assms(1,2) show ?thesis by (auto simp: historical_var_nonempty)
qed

lemma simulated_order:
  assumes "simulated_var sims pv = Inr res"
    and "np_percentile (sort (map (\<lambda>x. x * pv) sims)) 5 = Inr p5" and "p5 \<le> 0"
  shows "var95 res \<le> var99 res"
proof -
  from assms(1,2) obtain p1 where p1: "np_percentile (sort (map (\<lambda>x. x * pv) sims)) 1 = Inr p1"
    and res: "res = \<lparr>var95 = np_round \<bar>p5\<bar>, var99 = np_round \<bar>p1\<bar>\<rparr>"
    by (auto simp: simulated_var_def bind_err_def Let_def split: sum.splits)
  from np_percentile_mono [OF p1 assms(2)] assms(3) have "\<bar>p5\<bar> \<le> \<bar>p1\<bar>" by simp
  then have "np_round \<bar>p5\<bar> \<le> np_round \<bar>p1\<bar>" by (rule np_round_mono)
  with res show ?thesis by simp
qed

lemma arch_garch_order:
  assumes n: "\<And>c d. np_round \<bar>norm_ppf lib 0.05 * c * d\<bar> \<le> np_round \<bar>norm_ppf lib 0.01 * c * d\<bar>"
    and t: "\<And>nu c d. np_round \<bar>t_ppf lib 0.05 nu * c * d\<bar> \<le> np_round \<bar>t_ppf lib 0.01 nu * c * d\<bar>"
    and a: "arch_garch lib pr pv = Inr (v95, v99)"
  shows "np_round v95 \<le> np_round v99"
proof (cases "fit_student_t lib (map (\<lambda>r. r * 100) pr)")
  case (Inl e)
  with a obtain pvar where "fit_normal lib (map (\<lambda>r. r * 100) pr) = Inr pvar"
    and v: "v95 = \<bar>norm_ppf lib 0.05 * (sqrt pvar / 100) * pv\<bar>"
      "v99 = \<bar>norm_ppf lib 0.01 * (sqrt pvar / 100) * pv\<bar>"
    unfolding arch_garch_def Let_def bind_err_def by (auto split: sum.splits)
  show ?thesis unfolding v by (rule n)
next
  case (Inr fit)
  obtain pvar params_nu where fit: "fit = (pvar, params_nu)" by (cases fit)
  show ?thesis
  proof (cases params_nu)
    case None
    with a Inr fit have v: "v95 = \<bar>norm_ppf lib 0.05 * (sqrt pvar / 100) * pv\<bar>"
      "v99 = \<bar>norm_ppf lib 0.01 * (sqrt pvar / 100) * pv\<bar>"
      unfolding arch_garch_def Let_def by simp_all
    show ?thesis unfolding v by (rule n)
  next
    case (Some nu)
    with a Inr fit have v: "v95 = \<bar>t_ppf lib 0.05 nu * (sqrt pvar / 100) * pv\<bar>"
      "v99 = \<bar>t_ppf lib 0.01 nu * (sqrt pvar / 100) * pv\<bar>"
      unfolding arch_garch_def Let_def by simp_all
    show ?thesis unfolding v by (rule t)
  qed
qed

lemma parametric_order:
  assumes "\<bar>norm_ppf lib 0.05\<bar> \<le> \<bar>norm_ppf lib 0.01\<bar>"
    and "\<forall>nu. \<bar>t_ppf lib 0.05 nu\<bar> \<le> \<bar>t_ppf lib 0.01 nu\<bar>"
    and "100 \<le> length pr" and "garch_estimate lib pr pv cl = Inr res"
  shows "var95 res \<le> var99 res"
proof -
  have n: "np_round \<bar>norm_ppf lib 0.05 * c * d\<bar> \<le> np_round \<bar>norm_ppf lib 0.01 * c * d\<bar>" for c d
    using assms(1) by (intro np_round_mono abs_scale_mono)
  have t: "np_round \<bar>t_ppf lib 0.05 nu * c * d\<bar> \<le> np_round \<bar>t_ppf lib 0.01 nu * c * d\<bar>" for c d nu
    using assms(2) by (intro np_round_mono abs_scale_mono) simp
  show ?thesis
  proof (cases "ARCH_AVAILABLE lib")
    case False
    with assms(3,4) n show ?thesis
      by (auto simp: garch_estimate_def bind_err_def simplified_garch_def Let_def)
  next
    case True
    with assms(3,4) obtain v95 v99 where a: "arch_garch lib pr pv = Inr (v95, v99)"
      and res: "res = \<lparr>var95 = np_round v95, var99 = np_round v99\<rparr>"
      by (auto simp: garch_estimate_def bind_err_def split: sum.splits)
    from arch_garch_order [OF n t a] res show ?thesis by simp
  qed
qed

lemma three_draws_var:
  "np_percentile (sort (map (\<lambda>x. x * 85000) [- 0.01, 0, 0.01])) 5 = Inr (- 765)"
  "simulated_var [- 0.01, 0, 0.01] 85000 = Inr \<lparr>var95 = 765, var99 = 833\<rparr>"
proof -
  have r: "np_round 765 = 765" "np_round 833 = 833"
    using np_round_of_int [of 765] np_round_of_int [of 833] by simp_all
  show "np_percentile (sort (map (\<lambda>x. x * 85000) [- 0.01, 0, 0.01])) 5 = Inr (- 765)"
    by (simp add: np_percentile_def Let_def)
  show "simulated_var [- 0.01, 0, 0.01] 85000 = Inr \<lparr>var95 = 765, var99 = 833\<rparr>"
    by (simp add: simulated_var_def np_percentile_def Let_def bind_err_def r)
qed

lemma fitted_hundred_days:
  "garch_estimate library_with_arch (replicate 100 0.01) 85000 [0.95, 0.99] =
     Inr \<lparr>var95 = 3426, var99 = 5720\<rparr>"
proof -
  have r: "np_round (34255822335375669 / 10000000000000) = 3426"
    "np_round (572038099814227111 / 100000000000000) = 5720"
    by (simp_all add: np_round_def)
  have "arch_garch library_with_arch (replicate 100 0.01) 85000 =
      Inr (34255822335375669 / 10000000000000, 572038099814227111 / 100000000000000)"
    by (simp add: arch_garch_def library_with_arch_def example_t_ppf_def)
  moreover have "ARCH_AVAILABLE library_with_arch" by (simp add: library_with_arch_def)
  ultimately show ?thesis
    by (simp add: garch_estimate_def bind_err_def r)
qed

text \<open>
  Claim C3 says that \<open>var99 \<ge> var95\<close> whenever both figures come from the same
  distribution. The figures are absolute values of quantiles, so the order can fail when
  the 5% quantile is a gain. What holds: for the historical series, if the element at the
  5% index of the sorted series is not positive then \<open>var95 \<le> var99\<close>; for the simulated
  P&L sample, if its 5th percentile is not positive then \<open>var95 \<le> var99\<close>; for the fitted
  parametric distribution (and the EWMA estimate), \<open>var95 \<le> var99\<close> whenever the library's
  quantile at 1% is at least as large in absolute value as its quantile at 5%.
\<close>

theorem var_order_when_loss:
  "(historical_var r v cl = Inr res \<and> r \<noteq> [] \<and> sort r ! var_index (length r) 0.05 \<le> 0 \<longrightarrow>
      var95 res \<le> var99 res) \<and>
   (simulated_var sims pv = Inr res' \<and>
    np_percentile (sort (map (\<lambda>x. x * pv) sims)) 5 = Inr p5 \<and> p5 \<le> 0 \<longrightarrow>
      var95 res' \<le> var99 res') \<and>
   (\<bar>norm_ppf lib 0.05\<bar> \<le> \<bar>norm_ppf lib 0.01\<bar> \<and>
    (\<forall>nu. \<bar>t_ppf lib 0.05 nu\<bar> \<le> \<bar>t_ppf lib 0.01 nu\<bar>) \<and>
    100 \<le> length pr \<and> garch_estimate lib pr pv' cl = Inr res'' \<longrightarrow>
      var95 res'' \<le> var99 res'')"
  using historical_order [of r v cl res] simulated_order [of sims pv res' p5]
    parametric_order [of lib pr pv' cl res'']
  by blast

text \<open>
  The theorem at a series of three returns, at a sample of three draws and at a hundred
  daily returns with a fit that succeeds.
\<close>

theorem var_order_when_loss_witness:
  "historical_var [- 0.02, - 0.03, 0.01] 1000 [0.95, 0.99] = Inr \<lparr>var95 = 30, var99 = 30\<rparr> \<and>
   [- 0.02, - 0.03, 0.01 :: real] \<noteq> [] \<and>
   sort [- 0.02, - 0.03, 0.01 :: real] ! var_index (length [- 0.02, - 0.03, 0.01 :: real]) 0.05 \<le> 0 \<and>
   simulated_var [- 0.01, 0, 0.01] 85000 = Inr \<lparr>var95 = 765, var99 = 833\<rparr> \<and>
   np_percentile (sort (map (\<lambda>x. x * 85000) [- 0.01, 0, 0.01])) 5 = Inr (- 765) \<and>
   (- 765 :: real) \<le> 0 \<and>
   \<bar>norm_ppf library_with_arch 0.05\<bar> \<le> \<bar>norm_ppf library_with_arch 0.01\<bar> \<and>
   (\<forall>nu. \<bar>t_ppf library_with_arch 0.05 nu\<bar> \<le> \<bar>t_ppf library_with_arch 0.01 nu\<bar>) \<and>
   100 \<le> length (replicate 100 (0.01 :: real)) \<and>
   garch_estimate library_with_arch (replicate 100 0.01) 85000 [0.95, 0.99] =
     Inr \<lparr>var95 = 3426, var99 = 5720\<rparr> \<and>
   var95 \<lparr>var95 = 30, var99 = 30\<rparr> \<le> var99 \<lparr>var95 = 30, var99 = 30\<rparr> \<and>
   var95 \<lparr>var95 = 765, var99 = 833\<rparr> \<le> var99 \<lparr>var95 = 765, var99 = 833\<rparr> \<and>
   var95 \<lparr>var95 = 3426, var99 = 5720\<rparr> \<le> var99 \<lparr>var95 = 3426, var99 = 5720\<rparr>"
proof -
  have h: "historical_var [- 0.02, - 0.03, 0.01] 1000 [0.95, 0.99] = Inr \<lparr>var95 = 30, var99 = 30\<rparr>"
    by (simp add: historical_var_nonempty np_round_def)
  have q: "sort [- 0.02, - 0.03, 0.01 :: real] ! var_index (length [- 0.02, - 0.03, 0.01 :: real]) 0.05 \<le> 0"
    by (simp add: var_index_95_norm)
  have z: "\<bar>norm_ppf library_with_arch 0.05\<bar> \<le> \<bar>norm_ppf library_with_arch 0.01\<bar>"
    "\<forall>nu. \<bar>t_ppf library_with_arch 0.05 nu\<bar> \<le> \<bar>t_ppf library_with_arch 0.01 nu\<bar>"
    by (simp_all add: library_with_arch_def example_norm_ppf_def example_t_ppf_def)
  have l: "100 \<le> length (replicate 100 (0.01 :: real))" by simp
  from var_order_when_loss [of "[- 0.02, - 0.03, 0.01]" 1000 "[0.95, 0.99]"
      "\<lparr>var95 = 30, var99 = 30\<rparr>" "[- 0.01, 0, 0.01]" 85000 "\<lparr>var95 = 765, var99 = 833\<rparr>"
      "- 765" library_with_arch "replicate 100 0.01" 85000 "\<lparr>var95 = 3426, var99 = 5720\<rparr>"]
    h q z l three_draws_var fitted_hundred_days
  show ?thesis by simp
qed

text \<open>
  The claim as stated fails on one Long position and twenty daily returns of which one
  is a loss of 0.5% and the others are gains of at least 1%: the element at index 0 of
  the sorted series is the loss, the element at index 1 a gain twice as large.
\<close>

theorem var_order_counterexample:
  "calculate_garch_var library_with_arch [long_brent] [(''BRENT'', mostly_gains)] [0.95, 0.99] =
     Inr \<lparr>var95 = 850, var99 = 425\<rparr> \<and> (425 :: real) < 850"
proof -
  have v: "calculate_portfolio_value [long_brent] = Inr 85000"
    by (rule hundred_days_value)
  have r: "calculate_portfolio_returns [long_brent] [(''BRENT'', mostly_gains)] = Inr mostly_gains"
    by (simp add: calculate_portfolio_returns_def calculate_portfolio_value_def
      position_value_def bind_err_def getitem_def long_brent_def mostly_gains_def)
  have l: "length mostly_gains < 100" by (simp add: mostly_gains_def)
  have ne: "mostly_gains \<noteq> []" by (simp add: mostly_gains_def)
  have len: "length mostly_gains = 20" by (simp add: mostly_gains_def)
  have s: "sort mostly_gains ! 0 = - (1 / 200)" "sort mostly_gains ! Suc 0 = 1 / 100"
    by (simp_all add: mostly_gains_def)
  have "np_round \<bar>1 / 100 * 85000\<bar> = 850" "np_round \<bar>- (1 / 200) * 85000\<bar> = 425"
    by (simp_all add: np_round_def)
  then have "historical_var mostly_gains 85000 [0.95, 0.99] = Inr \<lparr>var95 = 850, var99 = 425\<rparr>"
    by (simp add: historical_var_nonempty [OF ne] len s)
  with short_series_is_historical [OF v r l, of library_with_arch "[0.95, 0.99]"]
  show ?thesis by simp
qed

section \<open>Books without exposure\<close>



































section \<open>Runs with the same seed, and engines in one process\<close>

lemma monte_carlo_ignores_self:
  "calculate_monte_carlo_var np e1 positions returns n cl g =
   calculate_monte_carlo_var np e2 positions returns n cl g"
  by (simp add: calculate_monte_carlo_var_def)

lemma call_engine_ignores_self:
  "call_engine lib np e1 req g = call_engine lib np e2 req g"
  by (cases req) (simp_all add: monte_carlo_ignores_self [of np e1 _ _ _ _ g e2])

lemma call_sequence_ignores_self:
  "call_sequence lib np e1 reqs g = call_sequence lib np e2 reqs g"
proof (induction reqs arbitrary: g)
  case Nil
  show ?case by simp
next
  case (Cons req reqs)
  show ?case
    by (simp add: call_engine_ignores_self [of lib np e1 req g e2] Cons.IH split: prod.splits)
qed

lemma RiskEngine_init_state:
  "RiskEngine_init np s g = Inr (engine, g') \<Longrightarrow> np_seed np s = Inr g'"
  by (auto simp: RiskEngine_init_def bind_err_def split: sum.splits)

lemma toy_draws_from_1:
  "map (\<lambda>i. Num (1 / 50 + toy_variate (Suc i) / 50)) [0 ..< 3] =
     [Num 0, Num (1 / 100), Num (1 / 50)]"
  by (simp add: toy_variate_def upt_3)

lemma toy_draws_from_2:
  "map (\<lambda>i. Num (1 / 50 + toy_variate (Suc (Suc i)) / 50)) [0 ..< 3] =
     [Num (1 / 100), Num (1 / 50), Num (3 / 100)]"
  by (simp add: toy_variate_def upt_3)

lemma toy_simulation_from_1:
  "simulate_portfolio_returns toy_numpy [long_brent] [(''BRENT'', [0, 0.02, 0.04])] 3 1 =
     (Inr [Num 0, Num 0.01, Num 0.02], 4)"
  by (simp add: simulate_portfolio_returns_def toy_single_stats toy_numpy_def sqrt_example
      index_at_def toy_draws_from_1)

lemma toy_simulation_from_2:
  "simulate_portfolio_returns toy_numpy [long_brent] [(''BRENT'', [0, 0.02, 0.04])] 3 2 =
     (Inr [Num 0.01, Num 0.02, Num 0.03], 5)"
  by (simp add: simulate_portfolio_returns_def toy_single_stats toy_numpy_def sqrt_example
      index_at_def toy_draws_from_2)

lemma toy_var_from_1:
  "sample_var [Num 0, Num 0.01, Num 0.02] 85000 = Inr (Figures \<lparr>var95 = 85, var99 = 17\<rparr>)"
proof -
  have r: "np_round 85 = 85" "np_round 17 = 17"
    using np_round_of_int [of 85] np_round_of_int [of 17] by simp_all
  show ?thesis
    by (simp add: sample_var_def simulated_var_def np_percentile_def Let_def bind_err_def r)
qed

lemma toy_var_from_2:
  "sample_var [Num 0.01, Num 0.02, Num 0.03] 85000 =
     Inr (Figures \<lparr>var95 = 935, var99 = 867\<rparr>)"
proof -
  have r: "np_round 935 = 935" "np_round 867 = 867"
    using np_round_of_int [of 935] np_round_of_int [of 867] by simp_all
  show ?thesis
    by (simp add: sample_var_def simulated_var_def np_percentile_def Let_def bind_err_def r)
qed

lemma toy_monte_carlo_from_1:
  "calculate_monte_carlo_var toy_numpy e [long_brent] [(''BRENT'', [0, 0.02, 0.04])] 3
     [0.95, 0.99] 1 = (Inr (Figures \<lparr>var95 = 85, var99 = 17\<rparr>), 4)"
  using toy_simulation_from_1 toy_var_from_1
  by (simp add: calculate_monte_carlo_var_def hundred_days_value)

lemma toy_monte_carlo_from_2:
  "calculate_monte_carlo_var toy_numpy e [long_brent] [(''BRENT'', [0, 0.02, 0.04])] 3
     [0.95, 0.99] 2 = (Inr (Figures \<lparr>var95 = 935, var99 = 867\<rparr>), 5)"
  using toy_simulation_from_2 toy_var_from_2
  by (simp add: calculate_monte_carlo_var_def hundred_days_value)

lemma toy_init: "0 \<le> s \<Longrightarrow> s < 2 ^ 32 \<Longrightarrow> RiskEngine_init toy_numpy s g = Inr (\<lparr>seed = s\<rparr>, nat s)"
  by (simp add: RiskEngine_init_def toy_numpy_def bind_err_def)

text \<open>
  Claim C10. The constructor seeds the generator of the process, not one of the
  instance. When an engine A is constructed with seed \<open>s1\<close> and then an engine B with
  seed \<open>s2\<close>, the Monte Carlo output of A on any input, and its responses to any sequence
  of requests, are those of a fresh engine seeded with \<open>s2\<close>.
\<close>

theorem later_engine_reseeds_earlier:
  assumes "RiskEngine_init np s1 g0 = Inr (engine_a, g1)"
    and "RiskEngine_init np s2 g1 = Inr (engine_b, g2)"
    and "RiskEngine_init np s2 g0' = Inr (fresh, g3)"
  shows "calculate_monte_carlo_var np engine_a positions returns n cl g2 =
           calculate_monte_carlo_var np fresh positions returns n cl g3 \<and>
         call_sequence lib np engine_a requests g2 = call_sequence lib np fresh requests g3"
proof -
  from RiskEngine_init_state [OF assms(2)] RiskEngine_init_state [OF assms(3)]
  have "g2 = g3" by simp
  then show ?thesis
    using monte_carlo_ignores_self [of np engine_a positions returns n cl g3 fresh]
      call_sequence_ignores_self [of lib np engine_a requests g3 fresh]
    by simp
qed

text \<open>
  The theorem with the stand-in generator and the seeds 1 and 2: after the second
  construction the first engine returns 935 and 867, the figures of seed 2; left alone
  it would have returned 85 and 17.
\<close>

theorem later_engine_reseeds_earlier_witness:
  "RiskEngine_init toy_numpy 1 0 = Inr (\<lparr>seed = 1\<rparr>, 1) \<and>
   RiskEngine_init toy_numpy 2 1 = Inr (\<lparr>seed = 2\<rparr>, 2) \<and>
   RiskEngine_init toy_numpy 2 0 = Inr (\<lparr>seed = 2\<rparr>, 2) \<and>
   calculate_monte_carlo_var toy_numpy \<lparr>seed = 1\<rparr> [long_brent]
     [(''BRENT'', [0, 0.02, 0.04])] 3 [0.95, 0.99] 2 =
   calculate_monte_carlo_var toy_numpy \<lparr>seed = 2\<rparr> [long_brent]
     [(''BRENT'', [0, 0.02, 0.04])] 3 [0.95, 0.99] 2 \<and>
   fst (calculate_monte_carlo_var toy_numpy \<lparr>seed = 1\<rparr> [long_brent]
     [(''BRENT'', [0, 0.02, 0.04])] 3 [0.95, 0.99] 2) =
     Inr (Figures \<lparr>var95 = 935, var99 = 867\<rparr>) \<and>
   fst (calculate_monte_carlo_var toy_numpy \<lparr>seed = 1\<rparr> [long_brent]
     [(''BRENT'', [0, 0.02, 0.04])] 3 [0.95, 0.99] 1) =
     Inr (Figures \<lparr>var95 = 85, var99 = 17\<rparr>)"
proof -
  have a: "RiskEngine_init toy_numpy 1 0 = Inr (\<lparr>seed = 1\<rparr>, 1)"
    using toy_init [of 1 0] by simp
  have b: "RiskEngine_init toy_numpy 2 1 = Inr (\<lparr>seed = 2\<rparr>, 2)"
    using toy_init [of 2 1] by simp
  have f: "RiskEngine_init toy_numpy 2 0 = Inr (\<lparr>seed = 2\<rparr>, 2)"
    using toy_init [of 2 0] by simp
  note t = later_engine_reseeds_earlier [OF a b f, where positions = "[long_brent]"
      and returns = "[(''BRENT'', [0, 0.02, 0.04])]" and n = 3 and cl = "[0.95, 0.99]"
      and lib = library_with_arch and requests = "[]", THEN conjunct1]
  have d: "fst (calculate_monte_carlo_var toy_numpy \<lparr>seed = 1\<rparr> [long_brent]
     [(''BRENT'', [0, 0.02, 0.04])] 3 [0.95, 0.99] 2) =
     Inr (Figures \<lparr>var95 = 935, var99 = 867\<rparr>)"
    by (simp only: toy_monte_carlo_from_2 fst_conv)
  have u: "fst (calculate_monte_carlo_var toy_numpy \<lparr>seed = 1\<rparr> [long_brent]
     [(''BRENT'', [0, 0.02, 0.04])] 3 [0.95, 0.99] 1) =
     Inr (Figures \<lparr>var95 = 85, var99 = 17\<rparr>)"
    by (simp only: toy_monte_carlo_from_1 fst_conv)
  show ?thesis
    by (rule conjI [OF a conjI [OF b conjI [OF f conjI [OF t conjI [OF d u]]]]])
qed

text \<open>
  Engines in one process. Calls of the two methods that do not draw leave the generator
  as it is, so an instance that nothing disturbs answers as it would alone.
\<close>

lemma call_engine_keeps_generator:
  "\<not> disturbs k (Call i req) \<Longrightarrow> i \<noteq> k \<Longrightarrow> snd (call_engine lib np e req g) = g"
  by (cases req) simp_all

lemma undisturbed_answers:
  assumes "list_all (\<lambda>ev. \<not> disturbs k ev) evs" "k < length (engines p)"
  shows "answers_of k (fst (run_process lib np evs p)) =
         fst (call_sequence lib np (engines p ! k) (requests_to k evs) (generator p))"
  using assms
proof (induction evs arbitrary: p)
  case Nil
  show ?case by simp
next
  case (Cons ev evs)
  from Cons.prems have d: "\<not> disturbs k ev" and r: "list_all (\<lambda>ev. \<not> disturbs k ev) evs"
    by simp_all
  show ?case
  proof (cases ev)
    case (Construct s)
    with d show ?thesis by simp
  next
    case (Call i req)
    show ?thesis
    proof (cases "i < length (engines p)")
      case False
      with Cons.prems(2) have "i \<noteq> k" by auto
      with False Call Cons.IH [OF r Cons.prems(2)] show ?thesis
        by (simp add: case_prod_beta)
    next
      case True
      obtain a g' where c: "call_engine lib np (engines p ! i) req (generator p) = (a, g')"
        by (cases "call_engine lib np (engines p ! i) req (generator p)")
      let ?p = "\<lparr>generator = g', engines = engines p\<rparr>"
      have l: "k < length (engines ?p)" using Cons.prems(2) by simp
      note ih = Cons.IH [OF r l]
      show ?thesis
      proof (cases "i = k")
        case same: True
        with True Call c ih show ?thesis by (simp add: case_prod_beta)
      next
        case other: False
        with d Call have "snd (call_engine lib np (engines p ! i) req (generator p)) = generator p"
          by (intro call_engine_keeps_generator [of k i]) simp_all
        with c have "g' = generator p" by simp
        with other True Call c ih show ?thesis by (simp add: case_prod_beta)
      qed
    qed
  qed
qed

lemma step_construct:
  assumes "step lib np (Construct s) p = (Constructed k, q)"
  shows "k < length (engines q)" "np_seed np s = Inr (generator q)"
  using assms
  by (auto simp: RiskEngine_init_def bind_err_def split: sum.splits)

lemma fresh_process_ignores_generator:
  assumes "engines p1 = engines p2" "engines p1 = [] \<or> generator p1 = generator p2"
  shows "fst (run_process lib np evs p1) = fst (run_process lib np evs p2)"
  using assms
proof (induction evs arbitrary: p1 p2)
  case Nil
  show ?case by simp
next
  case (Cons ev evs)
  show ?case
  proof (cases ev)
    case (Construct s)
    show ?thesis
    proof (cases "np_seed np s")
      case (Inl e)
      with Construct Cons.IH [OF Cons.prems] show ?thesis
        by (simp add: RiskEngine_init_def bind_err_def case_prod_beta)
    next
      case (Inr g')
      let ?q1 = "\<lparr>generator = g', engines = engines p1 @ [\<lparr>seed = s\<rparr>]\<rparr>"
      let ?q2 = "\<lparr>generator = g', engines = engines p2 @ [\<lparr>seed = s\<rparr>]\<rparr>"
      have "fst (run_process lib np evs ?q1) = fst (run_process lib np evs ?q2)"
        using Cons.prems(1) by (intro Cons.IH) simp_all
      with Inr Construct Cons.prems(1) show ?thesis
        by (simp add: RiskEngine_init_def bind_err_def case_prod_beta)
    qed
  next
    case (Call i req)
    show ?thesis
    proof (cases "engines p1 = []")
      case True
      with Call Cons.prems(1) Cons.IH [OF Cons.prems] show ?thesis
        by (simp add: case_prod_beta)
    next
      case False
      with Cons.prems have g: "generator p1 = generator p2" by simp
      show ?thesis
      proof (cases "i < length (engines p1)")
        case outside: False
        with Call Cons.prems(1) Cons.IH [OF Cons.prems] show ?thesis
          by (simp add: case_prod_beta)
      next
        case inside: True
        obtain a g' where c: "call_engine lib np (engines p1 ! i) req (generator p1) = (a, g')"
          by (cases "call_engine lib np (engines p1 ! i) req (generator p1)")
        let ?q1 = "\<lparr>generator = g', engines = engines p1\<rparr>"
        let ?q2 = "\<lparr>generator = g', engines = engines p2\<rparr>"
        have "fst (run_process lib np evs ?q1) = fst (run_process lib np evs ?q2)"
          using Cons.prems(1) by (intro Cons.IH) simp_all
        with inside Call c g Cons.prems(1) show ?thesis
          by (simp add: case_prod_beta)
      qed
    qed
  qed
qed

text \<open>
  Claim C9 says that two engine instances constructed with the same seed and given
  identical inputs in the same sequence of calls give identical Monte Carlo outputs. The
  generator belongs to the process and not to the instance, so the outputs of an instance
  depend on what else the process does. What holds, for every behaviour of the libraries:

    \<^item> a program run in a process that has no engine yet gives the same outcomes whatever
      state the generator was in at the start: two runs of one program agree;
    \<^item> two instances constructed with the same seed, in one process or in two, give the
      same answers to the same sequence of requests when, from the construction of each
      to the last of its answers, no engine is constructed and no other instance
      makes a Monte Carlo call; calls of the other two methods on other instances may come
      in between.

  Two instances whose calls are interleaved in one process do not agree, as the
  counterexample after the witness shows.
\<close>

theorem same_seed_same_outputs_undisturbed:
  "fst (run_process lib np program \<lparr>generator = g1, engines = []\<rparr>) =
   fst (run_process lib np program \<lparr>generator = g2, engines = []\<rparr>) \<and>
   (step lib np (Construct s) p1 = (Constructed ka, q1) \<and>
    step lib np (Construct s) p2 = (Constructed kb, q2) \<and>
    list_all (\<lambda>ev. \<not> disturbs ka ev) evs1 \<and> list_all (\<lambda>ev. \<not> disturbs kb ev) evs2 \<and>
    requests_to ka evs1 = requests_to kb evs2 \<longrightarrow>
    answers_of ka (fst (run_process lib np evs1 q1)) =
    answers_of kb (fst (run_process lib np evs2 q2)))"
proof (rule conjI)
  show "fst (run_process lib np program \<lparr>generator = g1, engines = []\<rparr>) =
   fst (run_process lib np program \<lparr>generator = g2, engines = []\<rparr>)"
    by (rule fresh_process_ignores_generator) simp_all
next
  show "step lib np (Construct s) p1 = (Constructed ka, q1) \<and>
    step lib np (Construct s) p2 = (Constructed kb, q2) \<and>
    list_all (\<lambda>ev. \<not> disturbs ka ev) evs1 \<and> list_all (\<lambda>ev. \<not> disturbs kb ev) evs2 \<and>
    requests_to ka evs1 = requests_to kb evs2 \<longrightarrow>
    answers_of ka (fst (run_process lib np evs1 q1)) =
    answers_of kb (fst (run_process lib np evs2 q2))"
  proof (rule impI)
    assume h: "step lib np (Construct s) p1 = (Constructed ka, q1) \<and>
      step lib np (Construct s) p2 = (Constructed kb, q2) \<and>
      list_all (\<lambda>ev. \<not> disturbs ka ev) evs1 \<and> list_all (\<lambda>ev. \<not> disturbs kb ev) evs2 \<and>
      requests_to ka evs1 = requests_to kb evs2"
    then have a: "step lib np (Construct s) p1 = (Constructed ka, q1)"
      and b: "step lib np (Construct s) p2 = (Constructed kb, q2)"
      and u1: "list_all (\<lambda>ev. \<not> disturbs ka ev) evs1"
      and u2: "list_all (\<lambda>ev. \<not> disturbs kb ev) evs2"
      and rq: "requests_to ka evs1 = requests_to kb evs2"
      by simp_all
    have g: "generator q1 = generator q2"
      using step_construct(2) [OF a] step_construct(2) [OF b] by simp
    have "answers_of ka (fst (run_process lib np evs1 q1)) =
        fst (call_sequence lib np (engines q1 ! ka) (requests_to ka evs1) (generator q1))"
      using u1 step_construct(1) [OF a] by (rule undisturbed_answers)
    also have "\<dots> =
        fst (call_sequence lib np (engines q2 ! kb) (requests_to kb evs2) (generator q2))"
      unfolding rq g
      by (simp only: call_sequence_ignores_self [of lib np "engines q1 ! ka" _ _ "engines q2 ! kb"])
    also have "\<dots> = answers_of kb (fst (run_process lib np evs2 q2))"
      using u2 step_construct(1) [OF b] by (rule undisturbed_answers [symmetric])
    finally show "answers_of ka (fst (run_process lib np evs1 q1)) =
      answers_of kb (fst (run_process lib np evs2 q2))" .
  qed
qed

lemma toy_draws_from_5:
  "map (\<lambda>i. Num (1 / 50 + toy_variate (5 + i) / 50)) [0 ..< 3] =
     [Num (1 / 25), Num (1 / 20), Num (- (1 / 100))]"
  by (simp add: toy_variate_def upt_3)

lemma toy_simulation_from_5:
  "simulate_portfolio_returns toy_numpy [long_brent] [(''BRENT'', [0, 0.02, 0.04])] 3 5 =
     (Inr [Num 0.04, Num 0.05, Num (- 0.01)], 8)"
  by (simp add: simulate_portfolio_returns_def toy_single_stats toy_numpy_def sqrt_example
      index_at_def toy_draws_from_5)

lemma toy_var_from_5:
  "sample_var [Num 0.04, Num 0.05, Num (- 0.01)] 85000 =
     Inr (Figures \<lparr>var95 = 425, var99 = 765\<rparr>)"
proof -
  have r: "np_round 425 = 425" "np_round 765 = 765"
    using np_round_of_int [of 425] np_round_of_int [of 765] by simp_all
  show ?thesis
    by (simp add: sample_var_def simulated_var_def np_percentile_def Let_def bind_err_def r)
qed

lemma toy_monte_carlo_from_5:
  "calculate_monte_carlo_var toy_numpy e [long_brent] [(''BRENT'', [0, 0.02, 0.04])] 3
     [0.95, 0.99] 5 = (Inr (Figures \<lparr>var95 = 425, var99 = 765\<rparr>), 8)"
  using toy_simulation_from_5 toy_var_from_5
  by (simp add: calculate_monte_carlo_var_def hundred_days_value)

lemma toy_monte_carlo_norm:
  "calculate_monte_carlo_var toy_numpy e [long_brent] [(''BRENT'', [0, 1 / 50, 1 / 25])] 3
     [19 / 20, 99 / 100] 2 = (Inr (Figures \<lparr>var95 = 935, var99 = 867\<rparr>), 5)"
  "calculate_monte_carlo_var toy_numpy e [long_brent] [(''BRENT'', [0, 1 / 50, 1 / 25])] 3
     [19 / 20, 99 / 100] 5 = (Inr (Figures \<lparr>var95 = 425, var99 = 765\<rparr>), 8)"
  using toy_monte_carlo_from_2 [of e] toy_monte_carlo_from_5 [of e] by simp_all

lemma toy_interleaved:
  "fst (run_process library_with_arch toy_numpy
     [Construct 2, Construct 2,
      Call 0 (MonteCarloRequest [long_brent] [(''BRENT'', [0, 0.02, 0.04])] 3),
      Call 1 (MonteCarloRequest [long_brent] [(''BRENT'', [0, 0.02, 0.04])] 3)]
     \<lparr>generator = g, engines = []\<rparr>) =
   [Constructed 0, Constructed 1,
    Answered 0 (VarResponse (Inr (Figures \<lparr>var95 = 935, var99 = 867\<rparr>))),
    Answered 1 (VarResponse (Inr (Figures \<lparr>var95 = 425, var99 = 765\<rparr>)))]"
proof -
  have i: "RiskEngine_init toy_numpy 2 g' = Inr (\<lparr>seed = 2\<rparr>, 2)" for g'
    using toy_init [of 2 g'] by simp
  show ?thesis
    by (simp add: i toy_monte_carlo_norm)
qed

text \<open>
  The theorem with the stand-in generator and seed 2. The first instance is the only one
  of its process and answers one Monte Carlo request; the second is constructed in a
  process that has an engine already, which answers a stress request before the second
  answers the Monte Carlo request. Both return 935 and 867.
\<close>

theorem same_seed_same_outputs_undisturbed_witness:
  "step library_with_arch toy_numpy (Construct 2) \<lparr>generator = 0, engines = []\<rparr> =
     (Constructed 0, \<lparr>generator = 2, engines = [\<lparr>seed = 2\<rparr>]\<rparr>) \<and>
   step library_with_arch toy_numpy (Construct 2) \<lparr>generator = 7, engines = [\<lparr>seed = 1\<rparr>]\<rparr> =
     (Constructed 1, \<lparr>generator = 2, engines = [\<lparr>seed = 1\<rparr>, \<lparr>seed = 2\<rparr>]\<rparr>) \<and>
   list_all (\<lambda>ev. \<not> disturbs 0 ev)
     [Call 0 (MonteCarloRequest [long_brent] [(''BRENT'', [0, 0.02, 0.04])] 3)] \<and>
   list_all (\<lambda>ev. \<not> disturbs 1 ev)
     [Call 0 (StressRequest [long_brent] [''BRENT'' \<mapsto> 85]),
      Call 1 (MonteCarloRequest [long_brent] [(''BRENT'', [0, 0.02, 0.04])] 3)] \<and>
   requests_to 0 [Call 0 (MonteCarloRequest [long_brent] [(''BRENT'', [0, 0.02, 0.04])] 3)] =
   requests_to 1
     [Call 0 (StressRequest [long_brent] [''BRENT'' \<mapsto> 85]),
      Call 1 (MonteCarloRequest [long_brent] [(''BRENT'', [0, 0.02, 0.04])] 3)] \<and>
   answers_of 0 (fst (run_process library_with_arch toy_numpy
     [Call 0 (MonteCarloRequest [long_brent] [(''BRENT'', [0, 0.02, 0.04])] 3)]
     \<lparr>generator = 2, engines = [\<lparr>seed = 2\<rparr>]\<rparr>)) =
   answers_of 1 (fst (run_process library_with_arch toy_numpy
     [Call 0 (StressRequest [long_brent] [''BRENT'' \<mapsto> 85]),
      Call 1 (MonteCarloRequest [long_brent] [(''BRENT'', [0, 0.02, 0.04])] 3)]
     \<lparr>generator = 2, engines = [\<lparr>seed = 1\<rparr>, \<lparr>seed = 2\<rparr>]\<rparr>)) \<and>
   answers_of 0 (fst (run_process library_with_arch toy_numpy
     [Call 0 (MonteCarloRequest [long_brent] [(''BRENT'', [0, 0.02, 0.04])] 3)]
     \<lparr>generator = 2, engines = [\<lparr>seed = 2\<rparr>]\<rparr>)) =
     [VarResponse (Inr (Figures \<lparr>var95 = 935, var99 = 867\<rparr>))]"
proof -
  have i: "RiskEngine_init toy_numpy 2 g' = Inr (\<lparr>seed = 2\<rparr>, 2)" for g'
    using toy_init [of 2 g'] by simp
  have a: "step library_with_arch toy_numpy (Construct 2) \<lparr>generator = 0, engines = []\<rparr> =
     (Constructed 0, \<lparr>generator = 2, engines = [\<lparr>seed = 2\<rparr>]\<rparr>)"
    by (simp add: i)
  have b: "step library_with_arch toy_numpy (Construct 2)
      \<lparr>generator = 7, engines = [\<lparr>seed = 1\<rparr>]\<rparr> =
     (Constructed 1, \<lparr>generator = 2, engines = [\<lparr>seed = 1\<rparr>, \<lparr>seed = 2\<rparr>]\<rparr>)"
    by (simp add: i)
  have c: "list_all (\<lambda>ev. \<not> disturbs 0 ev)
     [Call 0 (MonteCarloRequest [long_brent] [(''BRENT'', [0, 0.02, 0.04])] 3)]"
    by simp
  have d: "list_all (\<lambda>ev. \<not> disturbs 1 ev)
     [Call 0 (StressRequest [long_brent] [''BRENT'' \<mapsto> 85]),
      Call 1 (MonteCarloRequest [long_brent] [(''BRENT'', [0, 0.02, 0.04])] 3)]"
    by simp
  have e: "requests_to 0
      [Call 0 (MonteCarloRequest [long_brent] [(''BRENT'', [0, 0.02, 0.04])] 3)] =
   requests_to 1
     [Call 0 (StressRequest [long_brent] [''BRENT'' \<mapsto> 85]),
      Call 1 (MonteCarloRequest [long_brent] [(''BRENT'', [0, 0.02, 0.04])] 3)]"
    by simp
  have f: "answers_of 0 (fst (run_process library_with_arch toy_numpy
     [Call 0 (MonteCarloRequest [long_brent] [(''BRENT'', [0, 0.02, 0.04])] 3)]
     \<lparr>generator = 2, engines = [\<lparr>seed = 2\<rparr>]\<rparr>)) =
   answers_of 1 (fst (run_process library_with_arch toy_numpy
     [Call 0 (StressRequest [long_brent] [''BRENT'' \<mapsto> 85]),
      Call 1 (MonteCarloRequest [long_brent] [(''BRENT'', [0, 0.02, 0.04])] 3)]
     \<lparr>generator = 2, engines = [\<lparr>seed = 1\<rparr>, \<lparr>seed = 2\<rparr>]\<rparr>))"
    by (rule same_seed_same_outputs_undisturbed [THEN conjunct2, rule_format])
      (rule conjI [OF a conjI [OF b conjI [OF c conjI [OF d e]]]])
  have g: "answers_of 0 (fst (run_process library_with_arch toy_numpy
     [Call 0 (MonteCarloRequest [long_brent] [(''BRENT'', [0, 0.02, 0.04])] 3)]
     \<lparr>generator = 2, engines = [\<lparr>seed = 2\<rparr>]\<rparr>)) =
     [VarResponse (Inr (Figures \<lparr>var95 = 935, var99 = 867\<rparr>))]"
    by (simp add: toy_monte_carlo_norm)
  show ?thesis
    by (rule conjI [OF a conjI [OF b conjI [OF c conjI [OF d conjI [OF e conjI [OF f g]]]]]])
qed

text \<open>
  Two engines constructed with seed 2 in one process, then the same Monte Carlo request
  to the first and to the second: the first returns 935 and 867, the second, which draws
  from the generator where the first left it, returns 425 and 765.
\<close>

theorem same_seed_interleaved_counterexample:
  "fst (run_process library_with_arch toy_numpy
     [Construct 2, Construct 2,
      Call 0 (MonteCarloRequest [long_brent] [(''BRENT'', [0, 0.02, 0.04])] 3),
      Call 1 (MonteCarloRequest [long_brent] [(''BRENT'', [0, 0.02, 0.04])] 3)]
     \<lparr>generator = 0, engines = []\<rparr>) =
   [Constructed 0, Constructed 1,
    Answered 0 (VarResponse (Inr (Figures \<lparr>var95 = 935, var99 = 867\<rparr>))),
    Answered 1 (VarResponse (Inr (Figures \<lparr>var95 = 425, var99 = 765\<rparr>)))] \<and>
   requests_to 0
     [Construct 2, Construct 2,
      Call 0 (MonteCarloRequest [long_brent] [(''BRENT'', [0, 0.02, 0.04])] 3),
      Call 1 (MonteCarloRequest [long_brent] [(''BRENT'', [0, 0.02, 0.04])] 3)] =
   requests_to 1
     [Construct 2, Construct 2,
      Call 0 (MonteCarloRequest [long_brent] [(''BRENT'', [0, 0.02, 0.04])] 3),
      Call 1 (MonteCarloRequest [long_brent] [(''BRENT'', [0, 0.02, 0.04])] 3)] \<and>
   answers_of 0 (fst (run_process library_with_arch toy_numpy
     [Construct 2, Construct 2,
      Call 0 (MonteCarloRequest [long_brent] [(''BRENT'', [0, 0.02, 0.04])] 3),
      Call 1 (MonteCarloRequest [long_brent] [(''BRENT'', [0, 0.02, 0.04])] 3)]
     \<lparr>generator = 0, engines = []\<rparr>)) \<noteq>
   answers_of 1 (fst (run_process library_with_arch toy_numpy
     [Construct 2, Construct 2,
      Call 0 (MonteCarloRequest [long_brent] [(''BRENT'', [0, 0.02, 0.04])] 3),
      Call 1 (MonteCarloRequest [long_brent] [(''BRENT'', [0, 0.02, 0.04])] 3)]
     \<lparr>generator = 0, engines = []\<rparr>))"
  unfolding toy_interleaved by simp

end
